theory Spec2Isabelle
  imports Complex_Main
begin

section \<open>Data model (types.ts)\<close>

text \<open>
  A JavaScript \<^verbatim>\<open>number\<close> that takes part in arithmetic (quantities, servings, ratings,
  shopping-item ids) is modelled as a rational: the embedding is exact where the
  floating-point computation is exact and does not model rounding, NaN or Infinity.
  Fields that only ever hold integers (recipe and meal ids, versions) are naturals.
  A falsy number is \<open>0\<close>; an optional field is an \<open>option\<close>, with \<open>None\<close> for
  \<^verbatim>\<open>undefined\<close>. A string is a list of code units below 256, the Latin-1 range of
  UTF-16 (which holds the letters of English and Swedish); characters beyond it are not
  modelled. The fields \<^verbatim>\<open>id\<close>, \<^verbatim>\<open>rating\<close>,
  \<^verbatim>\<open>lang\<close> and \<^verbatim>\<open>translations\<close> occur in several interfaces and carry a suffix for the
  interface (\<open>id_r\<close>, \<open>id_m\<close>, \<open>id_s\<close>, \<open>rating_m\<close>, \<open>lang_s\<close>, \<open>translations_r\<close>,
  \<open>translations_s\<close>); \<^verbatim>\<open>type\<close> of a plan item is \<open>meal_type\<close>.
\<close>

datatype MealType = LUNCH | DINNER

record Ingredient =
  item_name :: string
  quantity :: rat
  unit :: string
  category :: string

record Nutrition =
  calories :: rat
  protein :: rat
  carbs :: rat
  sugar :: rat
  fat :: rat
  saturated_fat :: rat
  unsaturated_fat :: rat
  fiber :: rat
  salt :: rat

text \<open>
  \<^verbatim>\<open>interface Recipe\<close> is recursive through \<^verbatim>\<open>history?: Recipe[]\<close>. The flat fields
  form the record \<open>RecipeFields\<close>; a recipe is these fields together with its history.
  Every use of \<^verbatim>\<open>history\<close> in the source coalesces \<^verbatim>\<open>undefined\<close> with the empty array
  (\<^verbatim>\<open>recipe.history?.find\<close>, \<^verbatim>\<open>original.history || []\<close>), so an absent history is
  the empty list. Of \<^verbatim>\<open>translations\<close> only the presence is ever read; it is kept as the
  optional list of cached language codes.
\<close>

record RecipeFields =
  id_r :: nat
  title :: string
  description :: string
  instructions :: "string list"
  ingredients :: "Ingredient list"
  servings_default :: rat
  images :: "string list"
  rating :: "rat option"
  nutrition :: "Nutrition option"
  cuisine :: "string option"
  version :: nat
  lang :: "string option"
  translations_r :: "string list option"

datatype Recipe = Recipe (content: RecipeFields) (history: "Recipe list")

text \<open>
  \<^verbatim>\<open>date\<close> is an ISO string \<^verbatim>\<open>YYYY-MM-DD\<close> in the source, compared with \<^verbatim>\<open><\<close> and
  parsed with \<^verbatim>\<open>new Date\<close> (UTC midnight). It is modelled as the day number since the
  epoch: on well-formed dates the string order is the order of day numbers, and the
  difference of the two timestamps divided by 86400000 is the difference of day numbers.
\<close>

record MealPlanItem =
  id_m :: nat
  date :: int
  meal_type :: MealType
  recipe_id :: nat
  recipe_version :: "nat option"
  is_leftover :: bool
  is_cooked :: bool
  rating_m :: "rat option"
  rating_comment :: "string option"
  servings :: "rat option"

record ShoppingItem = Ingredient +
  id_s :: rat
  checked :: bool
  is_manually_added :: bool
  lang_s :: "string option"
  translations_s :: "(string \<times> string \<times> string) list option"

section \<open>Strings\<close>

text \<open>
  \<^verbatim>\<open>String.prototype.toLowerCase\<close> on the Latin-1 range: the letters \<^verbatim>\<open>A-Z\<close> (65 to 90) and
  the capital letters from U+00C0 to U+00DE, without the multiplication sign U+00D7, move
  up by 32; every other code unit stays.
\<close>

definition toLowerCaseChar :: "char \<Rightarrow> char" where
  "toLowerCaseChar c =
     (let n = (of_char c :: nat)
      in if (65 \<le> n \<and> n \<le> 90) \<or> (192 \<le> n \<and> n \<le> 222 \<and> n \<noteq> 215) then char_of (n + 32)
         else c)"

definition toLowerCase :: "string \<Rightarrow> string" where
  "toLowerCase s = map toLowerCaseChar s"

text \<open>The grouping key of \<^verbatim>\<open>mergeShoppingList\<close>:
  \<^verbatim>\<open>`${item_name.toLowerCase()}-${unit.toLowerCase()}`\<close>.\<close>

definition itemKey :: "string \<Rightarrow> string \<Rightarrow> string" where
  "itemKey n u = toLowerCase n @ ''-'' @ toLowerCase u"

section \<open>Version resolution (mockData.ts, mergeShoppingList, lines 162-166)\<close>

text \<open>
  \<^verbatim>\<open>
  let targetRecipe = recipe;
  if (meal.recipe_version && meal.recipe_version !== recipe.version) {
       const historical = recipe.history?.find(h => h.version === meal.recipe_version);
       if (historical) targetRecipe = historical;
  }
  \<close>
\<close>

definition targetRecipe :: "Recipe \<Rightarrow> nat option \<Rightarrow> Recipe" where
  "targetRecipe recipe rv =
     (case rv of
        None \<Rightarrow> recipe
      | Some v \<Rightarrow>
          if v \<noteq> 0 \<and> v \<noteq> version (content recipe)
          then (case find (\<lambda>h. version (content h) = v) (history recipe) of
                  Some historical \<Rightarrow> historical
                | None \<Rightarrow> recipe)
          else recipe)"

text \<open>
  The version selector of the recipe view (RecipeDetail.tsx, \<^verbatim>\<open>handleChangeVersion\<close>) holds
  the viewed recipe as state; the model returns the new state. The selected value is one
  of the options of the selector: the version of the recipe or that of a history entry.
  \<^verbatim>\<open>
  const v = parseInt(e.target.value);
  if (v === recipe.version) { setViewedRecipe(recipe); }
  else { const old = recipe.history?.find(h => h.version === v);
         if (old) setViewedRecipe(old); }
  \<close>
\<close>

definition handleChangeVersion :: "Recipe \<Rightarrow> Recipe \<Rightarrow> nat \<Rightarrow> Recipe" where
  "handleChangeVersion recipe viewedRecipe v =
     (if v = version (content recipe) then recipe
      else (case find (\<lambda>h. version (content h) = v) (history recipe) of
              Some old \<Rightarrow> old
            | None \<Rightarrow> viewedRecipe))"

section \<open>Shopping aggregation (mockData.ts, mergeShoppingList)\<close>

text \<open>\<^verbatim>\<open>a || b\<close> on an optional number: \<^verbatim>\<open>undefined\<close> and \<open>0\<close> are falsy.\<close>

definition js_or :: "rat option \<Rightarrow> rat \<Rightarrow> rat" where
  "js_or a b = (case a of Some x \<Rightarrow> if x \<noteq> 0 then x else b | None \<Rightarrow> b)"

subsection \<open>Staple test\<close>

text \<open>
  \<^verbatim>\<open>
  const isStaple = pantryStaples.some(staple => {
      try {
          const escaped = staple.replace(/[.*+?^${}()|[\]\\]/g, '\\$&');
          return new RegExp(`\\b${escaped}\\b`, 'i').test(ing.item_name);
      } catch { return false; }
  });
  \<close>
  The regular-expression engine belongs to the platform. It is the parameter \<open>rx\<close>:
  \<open>rx src s\<close> is the result of \<^verbatim>\<open>new RegExp(src, 'i').test(s)\<close>, and \<open>None\<close> when the
  constructor throws.
\<close>

definition backslash :: char where
  "backslash = CHR 0x5C"

definition regexSpecial :: "char \<Rightarrow> bool" where
  "regexSpecial c = (c \<in> set ''.*+?^${}()|[]'' \<or> c = backslash)"

definition escapeRegExp :: "string \<Rightarrow> string" where
  "escapeRegExp staple =
     concat (map (\<lambda>c. if regexSpecial c then [backslash, c] else [c]) staple)"

definition stapleSource :: "string \<Rightarrow> string" where
  "stapleSource staple = [backslash, CHR ''b''] @ escapeRegExp staple @ [backslash, CHR ''b'']"

definition isStaple :: "(string \<Rightarrow> string \<Rightarrow> bool option) \<Rightarrow> string list \<Rightarrow> string \<Rightarrow> bool" where
  "isStaple rx pantryStaples name =
     list_ex (\<lambda>staple. case rx (stapleSource staple) name of Some b \<Rightarrow> b | None \<Rightarrow> False)
       pantryStaples"

subsection \<open>Lookup state seeded from the previous list\<close>

text \<open>
  \<^verbatim>\<open>
  currentList.forEach(item => {
      const key = `${item.item_name.toLowerCase()}-${item.unit.toLowerCase()}`;
      statusMap.set(key, item.checked);
      if (!item.is_manually_added) { idMap.set(key, item.id); }
  });
  \<close>
  The two maps are filled by the same loop; they are given as two folds.
\<close>

definition statusMap :: "ShoppingItem list \<Rightarrow> (string \<rightharpoonup> bool)" where
  "statusMap currentList =
     foldl (\<lambda>m item. m(itemKey (item_name item) (unit item) \<mapsto> checked item))
       Map.empty currentList"

definition idMap :: "ShoppingItem list \<Rightarrow> (string \<rightharpoonup> rat)" where
  "idMap currentList =
     foldl (\<lambda>m item. if \<not> is_manually_added item
                      then m(itemKey (item_name item) (unit item) \<mapsto> id_s item) else m)
       Map.empty currentList"

subsection \<open>The generated map\<close>

text \<open>
  \<^verbatim>\<open>generatedMap\<close> is a JavaScript \<^verbatim>\<open>Map\<close>, whose \<^verbatim>\<open>values()\<close> come in insertion
  order: an association list, extended at the end. \<^verbatim>\<open>Date.now() + Math.random()\<close> is
  the parameter \<open>fresh\<close>, asked with the number of lines generated so far.
\<close>

type_synonym GeneratedMap = "(string \<times> ShoppingItem) list"

definition addIngredient ::
  "(string \<rightharpoonup> bool) \<Rightarrow> (string \<rightharpoonup> rat) \<Rightarrow> (nat \<Rightarrow> rat) \<Rightarrow> Recipe \<Rightarrow> rat \<Rightarrow>
   GeneratedMap \<Rightarrow> Ingredient \<Rightarrow> GeneratedMap" where
  "addIngredient statusM idM fresh target scale generatedMap ing =
     (let key = itemKey (item_name ing) (unit ing);
          quantity' = quantity ing * scale
      in case map_of generatedMap key of
           Some _ \<Rightarrow>
             map (\<lambda>(k, existing).
                    if k = key then (k, existing\<lparr>quantity := quantity existing + quantity'\<rparr>)
                    else (k, existing)) generatedMap
         | None \<Rightarrow>
             generatedMap @
             [(key,
               \<lparr>item_name = item_name ing, quantity = quantity', unit = unit ing,
                category = category ing,
                id_s = js_or (idM key) (fresh (length generatedMap)),
                checked = (case statusM key of Some b \<Rightarrow> b | None \<Rightarrow> False),
                is_manually_added = False,
                lang_s = lang (content target),
                translations_s = (case translations_r (content target) of
                                    Some _ \<Rightarrow> Some [] | None \<Rightarrow> None)\<rparr>)])"

definition ingStep ::
  "(string \<Rightarrow> string \<Rightarrow> bool option) \<Rightarrow> string list \<Rightarrow> (string \<rightharpoonup> bool) \<Rightarrow> (string \<rightharpoonup> rat) \<Rightarrow>
   (nat \<Rightarrow> rat) \<Rightarrow> Recipe \<Rightarrow> rat \<Rightarrow> GeneratedMap \<Rightarrow> Ingredient \<Rightarrow> GeneratedMap" where
  "ingStep rx pantryStaples statusM idM fresh target scale generatedMap ing =
     (if isStaple rx pantryStaples (item_name ing) then generatedMap
      else addIngredient statusM idM fresh target scale generatedMap ing)"

text \<open>
  \<^verbatim>\<open>const servings = meal.servings || targetRecipe.servings_default;\<close>
  \<^verbatim>\<open>const scale = servings / targetRecipe.servings_default;\<close>
  The division is that of the rationals. For a \<open>servings_default\<close> of 0 the source yields
  \<^verbatim>\<open>Infinity\<close> or \<^verbatim>\<open>NaN\<close>, which the model does not have: what is stated about
  quantities below is stated for a \<open>servings_default\<close> other than 0.
\<close>

definition assignedServings :: "MealPlanItem \<Rightarrow> Recipe \<Rightarrow> rat" where
  "assignedServings meal target = js_or (servings meal) (servings_default (content target))"

definition mealStep ::
  "(string \<Rightarrow> string \<Rightarrow> bool option) \<Rightarrow> string list \<Rightarrow> (string \<rightharpoonup> bool) \<Rightarrow> (string \<rightharpoonup> rat) \<Rightarrow>
   (nat \<Rightarrow> rat) \<Rightarrow> Recipe list \<Rightarrow> GeneratedMap \<Rightarrow> MealPlanItem \<Rightarrow> GeneratedMap" where
  "mealStep rx pantryStaples statusM idM fresh recipes generatedMap meal =
     (case find (\<lambda>r. id_r (content r) = recipe_id meal) recipes of
        None \<Rightarrow> generatedMap
      | Some recipe \<Rightarrow>
          (let target = targetRecipe recipe (recipe_version meal);
               scale = assignedServings meal target / servings_default (content target)
           in foldl (ingStep rx pantryStaples statusM idM fresh target scale) generatedMap
                (ingredients (content target))))"

definition generated ::
  "(string \<Rightarrow> string \<Rightarrow> bool option) \<Rightarrow> (nat \<Rightarrow> rat) \<Rightarrow> ShoppingItem list \<Rightarrow> MealPlanItem list \<Rightarrow>
   Recipe list \<Rightarrow> string list \<Rightarrow> GeneratedMap" where
  "generated rx fresh currentList plan recipes pantryStaples =
     foldl (mealStep rx pantryStaples (statusMap currentList) (idMap currentList) fresh recipes)
       [] plan"

definition mergeShoppingList ::
  "(string \<Rightarrow> string \<Rightarrow> bool option) \<Rightarrow> (nat \<Rightarrow> rat) \<Rightarrow> ShoppingItem list \<Rightarrow> MealPlanItem list \<Rightarrow>
   Recipe list \<Rightarrow> string list \<Rightarrow> ShoppingItem list" where
  "mergeShoppingList rx fresh currentList plan recipes pantryStaples =
     (let manualItems = filter is_manually_added currentList
      in manualItems @ map snd (generated rx fresh currentList plan recipes pantryStaples))"

subsection \<open>A model of the engine on the sources the staple test builds\<close>

text \<open>
  On a source of the shape \<^verbatim>\<open>\b\<close> \<open>escaped literal\<close> \<^verbatim>\<open>\b\<close> with the flag \<^verbatim>\<open>i\<close>, the
  ECMAScript engine looks for an occurrence of the literal, compared without regard to
  case, that starts and ends at a word boundary: a position with a word character
  \<^verbatim>\<open>[A-Za-z0-9_]\<close> on exactly one side. On the Latin-1 range two code units are equal
  without regard to case (the engine's \<^verbatim>\<open>Canonicalize\<close>) exactly when \<open>toLowerCaseChar\<close>
  maps them to the same code unit. \<open>literalWordEngine\<close> answers for sources of this shape
  only and is \<open>None\<close> elsewhere.
\<close>

definition isWordChar :: "char \<Rightarrow> bool" where
  "isWordChar c =
     (let n = (of_char c :: nat)
      in (48 \<le> n \<and> n \<le> 57) \<or> (65 \<le> n \<and> n \<le> 90) \<or> n = 95 \<or> (97 \<le> n \<and> n \<le> 122))"

definition wordBoundary :: "string \<Rightarrow> nat \<Rightarrow> bool" where
  "wordBoundary s p =
     ((0 < p \<and> p \<le> length s \<and> isWordChar (s ! (p - 1))) \<noteq> (p < length s \<and> isWordChar (s ! p)))"

definition wholeWordMatch :: "string \<Rightarrow> string \<Rightarrow> bool" where
  "wholeWordMatch lit s =
     list_ex (\<lambda>i. i + length lit \<le> length s \<and> wordBoundary s i \<and>
                   toLowerCase (take (length lit) (drop i s)) = toLowerCase lit \<and>
                   wordBoundary s (i + length lit))
       [0..<Suc (length s)]"


fun unescapeLiteral :: "string \<Rightarrow> string option" where
  "unescapeLiteral [] = Some []"
| "unescapeLiteral (c # cs) =
     (if c = backslash
      then (case cs of
              [] \<Rightarrow> None
            | d # ds \<Rightarrow> if regexSpecial d then map_option ((#) d) (unescapeLiteral ds) else None)
      else if regexSpecial c then None
      else map_option ((#) c) (unescapeLiteral cs))"

definition literalWordEngine :: "string \<Rightarrow> string \<Rightarrow> bool option" where
  "literalWordEngine src s =
     (if 4 \<le> length src \<and> take 2 src = [backslash, CHR ''b''] \<and>
         drop (length src - 2) src = [backslash, CHR ''b'']
      then map_option (\<lambda>lit. wholeWordMatch lit s)
             (unescapeLiteral (take (length src - 4) (drop 2 src)))
      else None)"

section \<open>Recipe versioning (the two App modules of \<^verbatim>\<open>part_000\<close>)\<close>

text \<open>
  Both App modules define \<^verbatim>\<open>handleUpdateRecipe\<close>. The model returns the recipe that is
  saved and the new catalog; the calls to the store and to React state setters are left
  out. The handlers compare the texts \<^verbatim>\<open>JSON.stringify\<close> gives. The texts of two
  instruction lists differ exactly when the lists do. The texts of two ingredient lists
  differ when the lists do, and also when the lists are deep-equal but their objects list
  the properties in another order, which the record \<open>Ingredient\<close> does not show: that case
  is the parameter \<open>reordered\<close>.

  First module (line 325):
  \<^verbatim>\<open>
  const original = recipes.find(r => r.id === updated.id);
  let finalRecipe = updated;
  if (original) {
      const changed = JSON.stringify(original.ingredients) !== JSON.stringify(updated.ingredients) ||
                      JSON.stringify(original.instructions) !== JSON.stringify(updated.instructions);
      if (changed) {
          finalRecipe = { ...updated, version: (original.version || 1) + 1,
                          history: [...(original.history || []), original] };
      }
  }
  const newRecipes = recipes.map(r => r.id === updated.id ? finalRecipe : r);
  \<close>
\<close>

definition contentChanged :: "bool \<Rightarrow> Recipe \<Rightarrow> Recipe \<Rightarrow> bool" where
  "contentChanged reordered original updated =
     ((ingredients (content original) \<noteq> ingredients (content updated) \<or> reordered) \<or>
      instructions (content original) \<noteq> instructions (content updated))"

definition nextVersion :: "Recipe \<Rightarrow> nat" where
  "nextVersion original =
     (if version (content original) \<noteq> 0 then version (content original) else 1) + 1"

definition handleUpdateRecipe_325 ::
  "bool \<Rightarrow> Recipe list \<Rightarrow> Recipe \<Rightarrow> Recipe \<times> Recipe list" where
  "handleUpdateRecipe_325 reordered recipes updated =
     (let finalRecipe =
            (case find (\<lambda>r. id_r (content r) = id_r (content updated)) recipes of
               None \<Rightarrow> updated
             | Some original \<Rightarrow>
                 if contentChanged reordered original updated
                 then Recipe ((content updated)\<lparr>version := nextVersion original\<rparr>)
                        (history original @ [original])
                 else updated)
      in (finalRecipe,
          map (\<lambda>r. if id_r (content r) = id_r (content updated) then finalRecipe else r) recipes))"

text \<open>
  Second module (line 821):
  \<^verbatim>\<open>
  const existing = recipes.find(r => r.id === updatedRecipe.id);
  let recipeToSave = updatedRecipe;
  if (existing) {
      const contentChanged = ... ;
      if (contentChanged) {
          const snapshot = { ...existing, history: [] };
          recipeToSave = { ...updatedRecipe, version: (existing.version || 1) + 1,
                           history: [snapshot, ...(existing.history || [])] };
      }
  }
  const newRecipes = recipes.map(r => r.id === recipeToSave.id ? recipeToSave : r);
  \<close>
\<close>

definition snapshot :: "Recipe \<Rightarrow> Recipe" where
  "snapshot existing = Recipe (content existing) []"

definition handleUpdateRecipe_821 ::
  "bool \<Rightarrow> Recipe list \<Rightarrow> Recipe \<Rightarrow> Recipe \<times> Recipe list" where
  "handleUpdateRecipe_821 reordered recipes updatedRecipe =
     (let recipeToSave =
            (case find (\<lambda>r. id_r (content r) = id_r (content updatedRecipe)) recipes of
               None \<Rightarrow> updatedRecipe
             | Some existing \<Rightarrow>
                 if contentChanged reordered existing updatedRecipe
                 then Recipe ((content updatedRecipe)\<lparr>version := nextVersion existing\<rparr>)
                        (snapshot existing # history existing)
                 else updatedRecipe)
      in (recipeToSave,
          map (\<lambda>r. if id_r (content r) = id_r (content recipeToSave) then recipeToSave else r)
            recipes))"

section \<open>Plan generation (first App module of \<^verbatim>\<open>part_000\<close>, handleGeneratePlan)\<close>

record ScoredRecipe =
  id_sc :: nat
  score :: rat
  daysSince :: int

text \<open>
  The body of \<^verbatim>\<open>recipes.map(recipe => ...)\<close>, lines 149-192. \<open>rnd\<close> is the value of
  \<^verbatim>\<open>Math.random()\<close> drawn for this recipe. \<^verbatim>\<open>Math.round\<close> of the quotient of two
  UTC-midnight timestamps by one day is the difference of the day numbers.
\<close>

definition scoreRecipe :: "MealPlanItem list \<Rightarrow> int \<Rightarrow> rat \<Rightarrow> Recipe \<Rightarrow> ScoredRecipe" where
  "scoreRecipe newPlan dateStr rnd recipe =
     (let rated = filter (\<lambda>p. recipe_id p = id_r (content recipe) \<and> js_or (rating_m p) 0 \<noteq> 0) newPlan;
          avgRating =
            (if 0 < length rated
             then foldl (\<lambda>acc curr. acc + js_or (rating_m curr) 0) 0 rated / of_nat (length rated)
             else js_or (rating (content recipe)) (7 / 2));
          eatenDates =
            rev (sort (map date
              (filter (\<lambda>p. recipe_id p = id_r (content recipe) \<and> date p < dateStr) newPlan)));
          days = (case eatenDates of [] \<Rightarrow> 100 | lastEatenDate # _ \<Rightarrow> dateStr - lastEatenDate);
          base = avgRating * 10 + of_int (min days 30) * 2;
          penalised =
            (if days \<le> 1 then base - 10000
             else if days \<le> 2 then base - 5000
             else if days \<le> 5 then base - 2000
             else if days \<le> 7 then base - 500
             else base)
      in \<lparr>id_sc = id_r (content recipe), score = penalised + rnd * 10, daysSince = days\<rparr>)"

text \<open>
  \<^verbatim>\<open>scoredRecipes.sort((a, b) => b.score - a.score)\<close> is a stable sort by descending
  score; \<^verbatim>\<open>scoredRecipes[0]\<close> of an empty array is \<^verbatim>\<open>undefined\<close>, which the guard
  \<^verbatim>\<open>recipes.length > 0\<close> excludes.
\<close>

definition bestMatch :: "ScoredRecipe list \<Rightarrow> ScoredRecipe option" where
  "bestMatch scoredRecipes =
     (case sort_key (\<lambda>a. - score a) scoredRecipes of [] \<Rightarrow> None | b # _ \<Rightarrow> Some b)"

text \<open>The plan item built for the selected recipe (\<^verbatim>\<open>const newItem: MealPlanItem = ...\<close>).\<close>

definition newItem :: "nat \<Rightarrow> int \<Rightarrow> Recipe \<Rightarrow> MealPlanItem" where
  "newItem newId dateStr selectedRecipe =
     \<lparr>id_m = newId, date = dateStr, meal_type = DINNER,
      recipe_id = id_r (content selectedRecipe),
      recipe_version = Some (version (content selectedRecipe)),
      is_leftover = False, is_cooked = False, rating_m = None, rating_comment = None,
      servings = Some (servings_default (content selectedRecipe))\<rparr>"

text \<open>
  One round of the loop over \<^verbatim>\<open>i\<close>: \<open>rnd j\<close> is the random number drawn for the \<open>j\<close>-th
  recipe and \<open>newId\<close> the value of \<^verbatim>\<open>Date.now() + i\<close>.
\<close>

definition generateDay ::
  "(nat \<Rightarrow> rat) \<Rightarrow> nat \<Rightarrow> Recipe list \<Rightarrow> int \<Rightarrow> MealPlanItem list \<Rightarrow> int \<Rightarrow> MealPlanItem list" where
  "generateDay rnd newId recipes todayStr newPlan dateStr =
     (if dateStr < todayStr then newPlan
      else if list_ex (\<lambda>p. date p = dateStr) newPlan then newPlan
      else if 0 < length recipes
      then (case bestMatch (map (\<lambda>(j, recipe). scoreRecipe newPlan dateStr (rnd j) recipe)
                              (enumerate 0 recipes)) of
              None \<Rightarrow> newPlan
            | Some best \<Rightarrow>
                (case find (\<lambda>r. id_r (content r) = id_sc best) recipes of
                   None \<Rightarrow> newPlan
                 | Some selectedRecipe \<Rightarrow> newPlan @ [newItem newId dateStr selectedRecipe]))
      else newPlan)"

text \<open>
  The loop \<^verbatim>\<open>for (let i = 0; i < 7; i++)\<close>. The date of round \<open>i\<close> comes from the platform's
  calendar (\<^verbatim>\<open>d.setDate(d.getDate() + i)\<close> in local time, printed in UTC); it is the
  parameter \<open>dateOf\<close>, with \<open>dateOf 0\<close> the start date.
\<close>

definition handleGeneratePlan ::
  "(nat \<Rightarrow> nat \<Rightarrow> rat) \<Rightarrow> (nat \<Rightarrow> nat) \<Rightarrow> (nat \<Rightarrow> int) \<Rightarrow> Recipe list \<Rightarrow> int \<Rightarrow> MealPlanItem list \<Rightarrow>
   MealPlanItem list" where
  "handleGeneratePlan random now dateOf recipes todayStr plan =
     foldl (\<lambda>newPlan i. generateDay (random i) (now i + i) recipes todayStr newPlan (dateOf i))
       plan [0..<7]"

section \<open>Contributions of the plan, as the specification words them\<close>

text \<open>
  A contribution is one ingredient of the recipe a plan item resolves to, together with
  that recipe and the scale \<open>assignedServings / servings_default\<close>. A plan item whose
  recipe is not in the catalog contributes nothing, and neither does an ingredient that
  the staple test matches. The contributed quantity is \<open>quantity * scale\<close>.
\<close>

type_synonym Line = "Recipe \<times> rat \<times> Ingredient"

definition lineKey :: "Line \<Rightarrow> string" where
  "lineKey c = (case c of (target, scale, ing) \<Rightarrow> itemKey (item_name ing) (unit ing))"

definition lineQuantity :: "Line \<Rightarrow> rat" where
  "lineQuantity c = (case c of (target, scale, ing) \<Rightarrow> quantity ing * scale)"

definition contributions ::
  "(string \<Rightarrow> string \<Rightarrow> bool option) \<Rightarrow> string list \<Rightarrow> Recipe list \<Rightarrow> MealPlanItem \<Rightarrow> Line list" where
  "contributions rx pantryStaples recipes meal =
     (case find (\<lambda>r. id_r (content r) = recipe_id meal) recipes of
        None \<Rightarrow> []
      | Some recipe \<Rightarrow>
          (let target = targetRecipe recipe (recipe_version meal)
           in map (\<lambda>ing. (target,
                           assignedServings meal target / servings_default (content target),
                           ing))
                (filter (\<lambda>ing. \<not> isStaple rx pantryStaples (item_name ing))
                   (ingredients (content target)))))"

text \<open>The loop body of \<open>mergeShoppingList\<close> on one contribution, and the quantity a
  generated map holds under a key (\<open>0\<close> for an absent key).\<close>

definition addLine ::
  "(string \<rightharpoonup> bool) \<Rightarrow> (string \<rightharpoonup> rat) \<Rightarrow> (nat \<Rightarrow> rat) \<Rightarrow> GeneratedMap \<Rightarrow> Line \<Rightarrow> GeneratedMap" where
  "addLine statusM idM fresh generatedMap c =
     (case c of (target, scale, ing) \<Rightarrow>
        addIngredient statusM idM fresh target scale generatedMap ing)"

definition quantityAt :: "GeneratedMap \<Rightarrow> string \<Rightarrow> rat" where
  "quantityAt gm k = (case map_of gm k of Some it \<Rightarrow> quantity it | None \<Rightarrow> 0)"

text \<open>
  The quantity the plan asks for, in the words of the claim: the sum, over the plan items
  that resolve to a recipe and over the wanted non-staple ingredients of that recipe, of
  \<open>ingredient.quantity * (assignedServings / servings_default)\<close>. The wanted ingredients are
  those with a given key string, or those with a given lower-cased pair of name and unit.
\<close>

definition matchQuantity ::
  "(string \<Rightarrow> string \<Rightarrow> bool option) \<Rightarrow> string list \<Rightarrow> Recipe list \<Rightarrow> MealPlanItem list \<Rightarrow>
   (Ingredient \<Rightarrow> bool) \<Rightarrow> rat" where
  "matchQuantity rx pantryStaples recipes plan wanted =
     sum_list (map (\<lambda>meal.
        case find (\<lambda>r. id_r (content r) = recipe_id meal) recipes of
          None \<Rightarrow> 0
        | Some recipe \<Rightarrow>
            (let target = targetRecipe recipe (recipe_version meal)
             in sum_list (map (\<lambda>ing. quantity ing *
                                 (js_or (servings meal) (servings_default (content target)) /
                                  servings_default (content target)))
                  (filter (\<lambda>ing. \<not> isStaple rx pantryStaples (item_name ing) \<and> wanted ing)
                     (ingredients (content target)))))) plan)"

definition keyQuantity ::
  "(string \<Rightarrow> string \<Rightarrow> bool option) \<Rightarrow> string list \<Rightarrow> Recipe list \<Rightarrow> MealPlanItem list \<Rightarrow>
   string \<Rightarrow> rat" where
  "keyQuantity rx pantryStaples recipes plan key =
     matchQuantity rx pantryStaples recipes plan
       (\<lambda>ing. toLowerCase (item_name ing) @ ''-'' @ toLowerCase (unit ing) = key)"

definition pairQuantity ::
  "(string \<Rightarrow> string \<Rightarrow> bool option) \<Rightarrow> string list \<Rightarrow> Recipe list \<Rightarrow> MealPlanItem list \<Rightarrow>
   string \<Rightarrow> string \<Rightarrow> rat" where
  "pairQuantity rx pantryStaples recipes plan n u =
     matchQuantity rx pantryStaples recipes plan
       (\<lambda>ing. toLowerCase (item_name ing) = toLowerCase n \<and>
              toLowerCase (unit ing) = toLowerCase u)"

section \<open>Concrete inputs\<close>

text \<open>Scenario A of the specification: a recipe for four with salt and chicken, planned
  for eight, with salt as a pantry staple.\<close>

definition scenarioA_recipe :: Recipe where
  "scenarioA_recipe =
     Recipe \<lparr>id_r = 1, title = ''Dinner'', description = [], instructions = [],
             ingredients =
               [\<lparr>item_name = ''Salt'', quantity = 1, unit = ''tsp'', category = ''Pantry''\<rparr>,
                \<lparr>item_name = ''Chicken'', quantity = 500, unit = ''g'', category = ''Meat''\<rparr>],
             servings_default = 4, images = [], rating = None, nutrition = None, cuisine = None,
             version = 1, lang = None, translations_r = None\<rparr> []"

definition scenarioA_meal :: MealPlanItem where
  "scenarioA_meal =
     \<lparr>id_m = 10, date = 0, meal_type = DINNER, recipe_id = 1, recipe_version = Some 1,
      is_leftover = False, is_cooked = False, rating_m = None, rating_comment = None,
      servings = Some 8\<rparr>"

definition scenarioA_line :: ShoppingItem where
  "scenarioA_line =
     \<lparr>item_name = ''Chicken'', quantity = 1000, unit = ''g'', category = ''Meat'',
      id_s = 7, checked = False, is_manually_added = False, lang_s = None,
      translations_s = None\<rparr>"


text \<open>A previous list with a manual item and a generated one, and a recipe at version 3
  whose history holds versions 2 and 1.\<close>

definition paperTowels :: ShoppingItem where
  "paperTowels =
     \<lparr>item_name = ''Paper towels'', quantity = 2, unit = ''pc'', category = ''Household'',
      id_s = 41, checked = True, is_manually_added = True, lang_s = None,
      translations_s = None\<rparr>"

definition oldChicken :: ShoppingItem where
  "oldChicken =
     \<lparr>item_name = ''chicken'', quantity = 250, unit = ''G'', category = ''Meat'',
      id_s = 42, checked = True, is_manually_added = False, lang_s = None,
      translations_s = None\<rparr>"

definition pinnedRecipe :: Recipe where
  "pinnedRecipe =
     Recipe ((content scenarioA_recipe)\<lparr>version := 3\<rparr>)
       [Recipe ((content scenarioA_recipe)\<lparr>version := 2, ingredients := []\<rparr>) [],
        scenarioA_recipe]"

text \<open>The key of a shopping item.\<close>

definition keyOf :: "ShoppingItem \<Rightarrow> string" where
  "keyOf item = itemKey (item_name item) (unit item)"

text \<open>Edits of the recipes above: new ingredients for the recipe of scenario A, new
  instructions only, and new ingredients for the recipe with a history.\<close>

definition editedRecipe :: Recipe where
  "editedRecipe =
     Recipe ((content scenarioA_recipe)\<lparr>ingredients :=
        [\<lparr>item_name = ''Chicken'', quantity = 900, unit = ''g'', category = ''Meat''\<rparr>]\<rparr>) []"

definition instructionsEdit :: Recipe where
  "instructionsEdit = Recipe ((content scenarioA_recipe)\<lparr>instructions := [''Stir'']\<rparr>) []"

definition ingredientsEdit :: Recipe where
  "ingredientsEdit = Recipe ((content pinnedRecipe)\<lparr>ingredients := []\<rparr>) (history pinnedRecipe)"

text \<open>Scenario B: two recipes rated 5, the second one planned for the day before day
  20000.\<close>

definition recipeA :: Recipe where
  "recipeA = Recipe ((content scenarioA_recipe)\<lparr>id_r := 1, title := ''A'', rating := Some 5\<rparr>) []"

definition recipeB :: Recipe where
  "recipeB = Recipe ((content scenarioA_recipe)\<lparr>id_r := 2, title := ''B'', rating := Some 5\<rparr>) []"

definition yesterdayB :: MealPlanItem where
  "yesterdayB =
     \<lparr>id_m = 20, date = 19999, meal_type = DINNER, recipe_id = 2, recipe_version = Some 1,
      is_leftover = False, is_cooked = True, rating_m = Some 5, rating_comment = None,
      servings = Some 4\<rparr>"

text \<open>Two ingredients whose names and units differ and whose key strings agree, an item
  planned at the default servings, a constant supply of fresh ids, and the name, unit and
  quantity of a line.\<close>

definition lineSummary :: "ShoppingItem \<Rightarrow> string \<times> string \<times> rat" where
  "lineSummary g = (item_name g, unit g, quantity g)"

definition sevenFresh :: "nat \<Rightarrow> rat" where
  "sevenFresh n = 7"

definition collisionRecipe :: Recipe where
  "collisionRecipe =
     Recipe ((content scenarioA_recipe)\<lparr>ingredients :=
        [\<lparr>item_name = ''olive'', quantity = 3, unit = ''oil-ml'', category = ''Pantry''\<rparr>,
         \<lparr>item_name = ''olive-oil'', quantity = 4, unit = ''ml'', category = ''Pantry''\<rparr>]\<rparr>) []"

definition collisionMeal :: MealPlanItem where
  "collisionMeal = scenarioA_meal\<lparr>servings := Some 4\<rparr>"

text \<open>A recipe that names milk and eggs (Swedish, with U+00C4 and U+00E4) in several
  spellings and units, the line expected for its litres of milk, and a staple with a
  letter outside ASCII (U+00F6, and U+00D6 in capitals).\<close>

definition egg :: string where
  "egg = [CHR 0xC4, CHR ''g'', CHR ''g'']"

definition eggLower :: string where
  "eggLower = [CHR 0xE4, CHR ''g'', CHR ''g'']"

definition dairyRecipe :: Recipe where
  "dairyRecipe =
     Recipe ((content scenarioA_recipe)\<lparr>ingredients :=
        [\<lparr>item_name = ''Milk'', quantity = 1, unit = ''l'', category = ''Dairy''\<rparr>,
         \<lparr>item_name = egg, quantity = 2, unit = ''pc'', category = ''Dairy''\<rparr>,
         \<lparr>item_name = ''milk'', quantity = 2, unit = ''L'', category = ''Dairy''\<rparr>,
         \<lparr>item_name = ''Milk'', quantity = 2, unit = ''dl'', category = ''Dairy''\<rparr>,
         \<lparr>item_name = eggLower, quantity = 4, unit = ''PC'', category = ''Dairy''\<rparr>,
         \<lparr>item_name = ''Sea Salt'', quantity = 1, unit = ''tsp'', category = ''Pantry''\<rparr>]\<rparr>) []"

definition milkLine :: ShoppingItem where
  "milkLine =
     \<lparr>item_name = ''Milk'', quantity = 6, unit = ''l'', category = ''Dairy'',
      id_s = 7, checked = False, is_manually_added = False, lang_s = None,
      translations_s = None\<rparr>"



section \<open>The aggregation loop as a fold over contributions\<close>

lemma foldl_ingStep:
  "foldl (ingStep rx S st idm fresh t sc) gm ings =
   foldl (addLine st idm fresh) gm
     (map (\<lambda>ing. (t, sc, ing)) (filter (\<lambda>ing. \<not> isStaple rx S (item_name ing)) ings))"
  by (induction ings arbitrary: gm) (simp_all add: ingStep_def addLine_def)

lemma mealStep_contributions:
  "mealStep rx S st idm fresh R gm meal = foldl (addLine st idm fresh) gm (contributions rx S R meal)"
  by (simp add: mealStep_def contributions_def foldl_ingStep Let_def split: option.splits)

lemma foldl_mealStep:
  "foldl (mealStep rx S st idm fresh R) gm plan =
   foldl (addLine st idm fresh) gm (concat (map (contributions rx S R) plan))"
  by (induction plan arbitrary: gm) (simp_all add: mealStep_contributions)

lemma generated_contributions:
  "generated rx fresh L plan R S =
   foldl (addLine (statusMap L) (idMap L) fresh) [] (concat (map (contributions rx S R) plan))"
  by (simp add: generated_def foldl_mealStep)

subsection \<open>One step\<close>

lemma addLine_present:
  "map_of gm (lineKey c) = Some x \<Longrightarrow>
   addLine st idm fresh gm c =
     map (\<lambda>(k, existing). if k = lineKey c then (k, existing\<lparr>quantity := quantity existing + lineQuantity c\<rparr>) else (k, existing)) gm"
  by (cases c) (auto simp: addLine_def addIngredient_def lineKey_def lineQuantity_def Let_def)

lemma addLine_keys_present:
  "map_of gm (lineKey c) = Some x \<Longrightarrow> map fst (addLine st idm fresh gm c) = map fst gm"
  by (simp add: addLine_present) (induction gm, auto)

lemma addLine_absent:
  "map_of gm (lineKey c) = None \<Longrightarrow>
   \<exists>it. addLine st idm fresh gm c = gm @ [(lineKey c, it)] \<and>
        itemKey (item_name it) (unit it) = lineKey c \<and> quantity it = lineQuantity c \<and>
        id_s it = js_or (idm (lineKey c)) (fresh (length gm)) \<and>
        checked it = (case st (lineKey c) of Some b \<Rightarrow> b | None \<Rightarrow> False) \<and>
        \<not> is_manually_added it \<and> item_name it = item_name (snd (snd c))"
  by (cases c) (simp add: addLine_def addIngredient_def lineKey_def lineQuantity_def Let_def)

lemma addLine_keys:
  "map fst (addLine st idm fresh gm c) =
     (if lineKey c \<in> set (map fst gm) then map fst gm else map fst gm @ [lineKey c])"
proof (cases "map_of gm (lineKey c)")
  case None
  then have "lineKey c \<notin> set (map fst gm)" by (simp add: map_of_eq_None_iff)
  moreover from addLine_absent[OF None] obtain it where
    "addLine st idm fresh gm c = gm @ [(lineKey c, it)]" by blast
  ultimately show ?thesis by simp
next
  case (Some x)
  then have "lineKey c \<in> set (map fst gm)" by (metis map_of_eq_None_iff option.distinct(1) set_map)
  with addLine_keys_present[OF Some] show ?thesis by simp
qed

lemma addLine_distinct:
  "distinct (map fst gm) \<Longrightarrow> distinct (map fst (addLine st idm fresh gm c))"
  by (simp add: addLine_keys)

lemma run_distinct:
  "distinct (map fst gm) \<Longrightarrow> distinct (map fst (foldl (addLine st idm fresh) gm cs))"
  by (induction cs arbitrary: gm) (simp_all add: addLine_distinct)

lemma addLine_key_set:
  "set (map fst (addLine st idm fresh gm c)) = insert (lineKey c) (set (map fst gm))"
  unfolding addLine_keys by auto

lemma run_keys:
  "set (map fst (foldl (addLine st idm fresh) gm cs)) = set (map fst gm) \<union> lineKey ` set cs"
proof (induction cs arbitrary: gm)
  case Nil
  show ?case by simp
next
  case (Cons c cs)
  show ?case unfolding foldl_Cons Cons.IH addLine_key_set by auto
qed


subsection \<open>Quantities and invariants\<close>

lemma map_of_bump:
  "map_of (map (\<lambda>(k, v). if k = key then (k, g v) else (k, v)) gm) k' =
     (if k' = key then map_option g (map_of gm k') else map_of gm k')"
  by (induction gm) auto

lemma addLine_quantityAt:
  "quantityAt (addLine st idm fresh gm c) k =
     quantityAt gm k + (if lineKey c = k then lineQuantity c else 0)"
proof (cases "map_of gm (lineKey c)")
  case None
  from addLine_absent[OF None, of st idm fresh] obtain it where
    "addLine st idm fresh gm c = gm @ [(lineKey c, it)]" "quantity it = lineQuantity c" by blast
  with None show ?thesis
    by (auto simp: quantityAt_def map_add_def split: option.splits)
next
  case (Some x)
  show ?thesis
    unfolding addLine_present[OF Some, of st idm fresh] quantityAt_def map_of_bump
    using Some by (auto split: option.splits)
qed

lemma run_quantityAt:
  "quantityAt (foldl (addLine st idm fresh) gm cs) k =
     quantityAt gm k + sum_list (map lineQuantity (filter (\<lambda>c. lineKey c = k) cs))"
  by (induction cs arbitrary: gm) (simp_all add: addLine_quantityAt)

lemma addLine_pres:
  assumes old: "\<forall>x\<in>set gm. Q (fst x) (snd x)"
    and upd: "\<And>k it q. Q k it \<Longrightarrow> Q k (it\<lparr>quantity := q\<rparr>)"
    and new: "\<And>it. itemKey (item_name it) (unit it) = lineKey c \<Longrightarrow> \<not> is_manually_added it \<Longrightarrow>
                item_name it = item_name (snd (snd c)) \<Longrightarrow>
                id_s it = js_or (idm (lineKey c)) (fresh (length gm)) \<Longrightarrow> Q (lineKey c) it"
  shows "\<forall>x\<in>set (addLine st idm fresh gm c). Q (fst x) (snd x)"
proof (cases "map_of gm (lineKey c)")
  case None
  from addLine_absent[OF None, of st idm fresh] obtain it where
    "addLine st idm fresh gm c = gm @ [(lineKey c, it)]"
    "itemKey (item_name it) (unit it) = lineKey c" "\<not> is_manually_added it"
    "item_name it = item_name (snd (snd c))"
    "id_s it = js_or (idm (lineKey c)) (fresh (length gm))" by blast
  with old new show ?thesis by auto
next
  case (Some x)
  have "Q k it" if "(k, it) \<in> set gm" for k it
    using old that by force
  then show ?thesis unfolding addLine_present[OF Some, of st idm fresh]
    using upd by (auto split: if_splits)
qed

lemma run_pres:
  assumes old: "\<forall>x\<in>set gm. Q (fst x) (snd x)"
    and upd: "\<And>k it q. Q k it \<Longrightarrow> Q k (it\<lparr>quantity := q\<rparr>)"
    and new: "\<And>c it n. c \<in> set cs \<Longrightarrow> itemKey (item_name it) (unit it) = lineKey c \<Longrightarrow>
                \<not> is_manually_added it \<Longrightarrow> item_name it = item_name (snd (snd c)) \<Longrightarrow>
                id_s it = js_or (idm (lineKey c)) (fresh n) \<Longrightarrow> Q (lineKey c) it"
  shows "\<forall>x\<in>set (foldl (addLine st idm fresh) gm cs). Q (fst x) (snd x)"
  using old new
proof (induction cs arbitrary: gm)
  case Nil
  then show ?case by simp
next
  case (Cons c cs)
  have "\<forall>x\<in>set (addLine st idm fresh gm c). Q (fst x) (snd x)"
  proof (rule addLine_pres[where Q = Q])
    show "\<forall>x\<in>set gm. Q (fst x) (snd x)" by (rule Cons.prems(1))
    show "Q k (it\<lparr>quantity := q\<rparr>)" if "Q k it" for k it q using that by (rule upd)
    show "Q (lineKey c) it"
      if "itemKey (item_name it) (unit it) = lineKey c" "\<not> is_manually_added it"
        "item_name it = item_name (snd (snd c))"
        "id_s it = js_or (idm (lineKey c)) (fresh (length gm))" for it
      using that by (intro Cons.prems(2)[of c it "length gm"]) simp_all
  qed
  then show ?case
    unfolding foldl_Cons by (rule Cons.IH) (rule Cons.prems(2), simp_all)
qed

lemma run_key_inv:
  "\<forall>x\<in>set (foldl (addLine st idm fresh) [] cs). itemKey (item_name (snd x)) (unit (snd x)) = fst x"
  by (rule run_pres[where Q = "\<lambda>k it. itemKey (item_name it) (unit it) = k"]) simp_all

lemma run_nonmanual:
  "\<forall>x\<in>set (foldl (addLine st idm fresh) [] cs). \<not> is_manually_added (snd x)"
  by (rule run_pres[where Q = "\<lambda>k it. \<not> is_manually_added it"]) simp_all

lemma js_or_nonzero: "b \<noteq> 0 \<Longrightarrow> js_or a b \<noteq> 0"
  by (simp add: js_or_def split: option.splits)

lemma run_id_nonzero:
  assumes "\<forall>n. fresh n \<noteq> 0"
  shows "\<forall>x\<in>set (foldl (addLine st idm fresh) [] cs). id_s (snd x) \<noteq> 0"
  by (rule run_pres[where Q = "\<lambda>k it. id_s it \<noteq> 0"]) (simp_all add: js_or_nonzero assms)

lemma run_names:
  assumes "\<forall>c\<in>set cs. P (item_name (snd (snd c)))"
  shows "\<forall>x\<in>set (foldl (addLine st idm fresh) [] cs). P (item_name (snd x))"
  by (rule run_pres[where Q = "\<lambda>k it. P (item_name it)"]) (use assms in auto)


subsection \<open>The generated part of the output\<close>

lemma generated_distinct: "distinct (map fst (generated rx fresh L plan R S))"
  unfolding generated_contributions by (rule run_distinct) simp

lemma generated_key:
  "(k, it) \<in> set (generated rx fresh L plan R S) \<Longrightarrow> itemKey (item_name it) (unit it) = k"
  unfolding generated_contributions using run_key_inv by fastforce

lemma generated_nonmanual:
  "g \<in> set (map snd (generated rx fresh L plan R S)) \<Longrightarrow> \<not> is_manually_added g"
  unfolding generated_contributions using run_nonmanual by fastforce

lemma filter_generated:
  "filter (\<lambda>x. \<not> is_manually_added x) (mergeShoppingList rx fresh L plan R S) =
     map snd (generated rx fresh L plan R S)"
  using generated_nonmanual[of _ rx fresh L plan R S]
  by (simp add: mergeShoppingList_def filter_id_conv filter_empty_conv)

lemma filter_manual:
  "filter is_manually_added (mergeShoppingList rx fresh L plan R S) = filter is_manually_added L"
  using generated_nonmanual[of _ rx fresh L plan R S]
  by (simp add: mergeShoppingList_def filter_empty_conv)


subsection \<open>Staples\<close>






lemma generated_keys:
  "set (map fst (generated rx fresh L plan R S)) =
     lineKey ` set (concat (map (contributions rx S R) plan))"
  unfolding generated_contributions run_keys by simp

lemma generated_item_keys:
  "(\<lambda>g. itemKey (item_name g) (unit g)) ` set (map snd (generated rx fresh L plan R S)) =
     set (map fst (generated rx fresh L plan R S))"
  using generated_key[of _ _ rx fresh L plan R S] by force

lemma mealStep_servings_zero:
  "servings meal = Some 0 \<Longrightarrow>
   mealStep rx S st idm fresh R gm meal = mealStep rx S st idm fresh R gm (meal\<lparr>servings := None\<rparr>)"
  by (simp add: mealStep_def assignedServings_def js_or_def Let_def cong: option.case_cong)

subsection \<open>A second run over the output of the first\<close>

lemma addLine_length: "length gm \<le> length (addLine st idm fresh gm c)"
proof -
  have "length (map fst gm) \<le> length (map fst (addLine st idm fresh gm c))"
    unfolding addLine_keys by simp
  then show ?thesis by simp
qed

lemma addLine_nth_stable:
  assumes "i < length gm"
  shows "fst (addLine st idm fresh gm c ! i) = fst (gm ! i) \<and>
         checked (snd (addLine st idm fresh gm c ! i)) = checked (snd (gm ! i)) \<and>
         id_s (snd (addLine st idm fresh gm c ! i)) = id_s (snd (gm ! i))"
proof (cases "map_of gm (lineKey c)")
  case None
  from addLine_absent[OF None, of st idm fresh] obtain it where
    "addLine st idm fresh gm c = gm @ [(lineKey c, it)]" by blast
  with assms show ?thesis by (simp add: nth_append)
next
  case (Some x)
  show ?thesis unfolding addLine_present[OF Some, of st idm fresh]
    using assms by (simp add: case_prod_beta)
qed

lemma run_cong:
  assumes "\<forall>i<length (foldl (addLine st1 idm1 fresh1) gm cs). length gm \<le> i \<longrightarrow>
             (case st2 (fst (foldl (addLine st1 idm1 fresh1) gm cs ! i)) of Some b \<Rightarrow> b | None \<Rightarrow> False) =
               checked (snd (foldl (addLine st1 idm1 fresh1) gm cs ! i)) \<and>
             js_or (idm2 (fst (foldl (addLine st1 idm1 fresh1) gm cs ! i))) (fresh2 i) =
               id_s (snd (foldl (addLine st1 idm1 fresh1) gm cs ! i))"
  shows "foldl (addLine st2 idm2 fresh2) gm cs = foldl (addLine st1 idm1 fresh1) gm cs"
  using assms
proof (induction cs rule: rev_induct)
  case Nil
  show ?case by simp
next
  case (snoc c cs)
  let ?g = "foldl (addLine st1 idm1 fresh1) gm cs"
  have len: "length gm \<le> length ?g"
    by (induction cs rule: rev_induct) (auto intro: order_trans[OF _ addLine_length])
  have run: "foldl (addLine st1 idm1 fresh1) gm (cs @ [c]) = addLine st1 idm1 fresh1 ?g c"
    by simp
  have "foldl (addLine st2 idm2 fresh2) gm cs = ?g"
  proof (rule snoc.IH, intro allI impI)
    fix i assume i: "i < length ?g" "length gm \<le> i"
    then have lt: "i < length (addLine st1 idm1 fresh1 ?g c)"
      using addLine_length[of ?g st1 idm1 fresh1 c] by simp
    from snoc.prems[unfolded run, rule_format, OF lt i(2)]
      addLine_nth_stable[OF i(1), of st1 idm1 fresh1 c]
    show "(case st2 (fst (?g ! i)) of Some b \<Rightarrow> b | None \<Rightarrow> False) = checked (snd (?g ! i)) \<and>
          js_or (idm2 (fst (?g ! i))) (fresh2 i) = id_s (snd (?g ! i))"
      by simp
  qed
  moreover have "addLine st2 idm2 fresh2 ?g c = addLine st1 idm1 fresh1 ?g c"
  proof (cases "map_of ?g (lineKey c)")
    case (Some x)
    show ?thesis
      unfolding addLine_present[OF Some, of st1 idm1 fresh1] addLine_present[OF Some, of st2 idm2 fresh2] ..
  next
    case None
    have "length ?g < length (addLine st1 idm1 fresh1 ?g c)"
      using addLine_absent[OF None, of st1 idm1 fresh1] by auto
    with snoc.prems[unfolded run] len
    have "(case st2 (fst (addLine st1 idm1 fresh1 ?g c ! length ?g)) of Some b \<Rightarrow> b | None \<Rightarrow> False) =
            checked (snd (addLine st1 idm1 fresh1 ?g c ! length ?g)) \<and>
          js_or (idm2 (fst (addLine st1 idm1 fresh1 ?g c ! length ?g))) (fresh2 (length ?g)) =
            id_s (snd (addLine st1 idm1 fresh1 ?g c ! length ?g))"
      by blast
    with None show ?thesis
      by (cases c) (simp add: addLine_def addIngredient_def Let_def lineKey_def)
  qed
  ultimately show ?case by simp
qed

lemma statusMap_append:
  "statusMap (xs @ ys) = foldl (\<lambda>m item. m(keyOf item \<mapsto> checked item)) (statusMap xs) ys"
  unfolding statusMap_def keyOf_def by simp

lemma idMap_append:
  "idMap (xs @ ys) =
     foldl (\<lambda>m item. if \<not> is_manually_added item then m(keyOf item \<mapsto> id_s item) else m)
       (idMap xs) ys"
  unfolding idMap_def keyOf_def by simp

lemma foldl_status_other:
  "k \<notin> keyOf ` set ys \<Longrightarrow> foldl (\<lambda>m item. m(keyOf item \<mapsto> checked item)) m ys k = m k"
  by (induction ys arbitrary: m) auto

lemma foldl_status_at:
  "distinct (map keyOf ys) \<Longrightarrow> y \<in> set ys \<Longrightarrow>
   foldl (\<lambda>m item. m(keyOf item \<mapsto> checked item)) m ys (keyOf y) = Some (checked y)"
  by (induction ys arbitrary: m) (auto simp: foldl_status_other)

lemma foldl_id_other:
  "k \<notin> keyOf ` set ys \<Longrightarrow>
   foldl (\<lambda>m item. if \<not> is_manually_added item then m(keyOf item \<mapsto> id_s item) else m) m ys k = m k"
  by (induction ys arbitrary: m) auto

lemma foldl_id_at:
  "distinct (map keyOf ys) \<Longrightarrow> y \<in> set ys \<Longrightarrow> \<not> is_manually_added y \<Longrightarrow>
   foldl (\<lambda>m item. if \<not> is_manually_added item then m(keyOf item \<mapsto> id_s item) else m) m ys (keyOf y)
     = Some (id_s y)"
  by (induction ys arbitrary: m) (auto simp: foldl_id_other)

lemma generated_id_nonzero:
  assumes "\<forall>n. fresh n \<noteq> 0"
  shows "g \<in> set (map snd (generated rx fresh L plan R S)) \<Longrightarrow> id_s g \<noteq> 0"
  unfolding generated_contributions using run_id_nonzero[OF assms] by fastforce

lemma generated_keyOf:
  "map keyOf (map snd (generated rx fresh L plan R S)) = map fst (generated rx fresh L plan R S)"
  using generated_key[of _ _ rx fresh L plan R S] by (auto simp: keyOf_def)

lemma mergeShoppingList_fixed_point:
  assumes "\<forall>n. fresh n \<noteq> 0"
  shows "mergeShoppingList rx fresh' (mergeShoppingList rx fresh L plan R S) plan R S =
           mergeShoppingList rx fresh L plan R S"
proof -
  let ?gen = "generated rx fresh L plan R S"
  let ?out = "mergeShoppingList rx fresh L plan R S"
  let ?cs = "concat (map (contributions rx S R) plan)"
  have out: "?out = filter is_manually_added L @ map snd ?gen"
    by (simp add: mergeShoppingList_def)
  have dist: "distinct (map keyOf (map snd ?gen))"
    unfolding generated_keyOf by (rule generated_distinct)
  have at: "(case statusMap ?out (fst (?gen ! i)) of Some b \<Rightarrow> b | None \<Rightarrow> False) =
              checked (snd (?gen ! i)) \<and>
            js_or (idMap ?out (fst (?gen ! i))) (fresh' i) = id_s (snd (?gen ! i))"
    if i: "i < length ?gen" for i
  proof -
    let ?it = "snd (?gen ! i)"
    have mem: "?gen ! i \<in> set ?gen" using i by simp
    then have memit: "?it \<in> set (map snd ?gen)" by simp
    have "(fst (?gen ! i), ?it) \<in> set ?gen" using mem by simp
    then have k: "keyOf ?it = fst (?gen ! i)" unfolding keyOf_def by (rule generated_key)
    have nm: "\<not> is_manually_added ?it" using memit by (rule generated_nonmanual)
    have nz: "id_s ?it \<noteq> 0" using memit by (rule generated_id_nonzero[OF assms])
    have "statusMap ?out (keyOf ?it) = Some (checked ?it)"
      unfolding out statusMap_append using dist memit by (rule foldl_status_at)
    moreover have "idMap ?out (keyOf ?it) = Some (id_s ?it)"
      unfolding out idMap_append using dist memit nm by (rule foldl_id_at)
    ultimately show ?thesis using nz by (simp add: k js_or_def)
  qed
  have "generated rx fresh' ?out plan R S = ?gen"
    unfolding generated_contributions[of rx fresh' ?out] generated_contributions[of rx fresh L]
    by (rule run_cong) (use at in \<open>simp add: generated_contributions\<close>)
  moreover have "filter is_manually_added ?out = filter is_manually_added L"
    by (rule filter_manual)
  ultimately show ?thesis
    unfolding mergeShoppingList_def[of rx fresh' ?out] by (simp add: out)
qed


lemma generated_key_unique:
  assumes "x \<in> set (map snd (generated rx fresh L plan R S))"
    and "y \<in> set (map snd (generated rx fresh L plan R S))"
    and "keyOf x = keyOf y"
  shows "x = y"
proof -
  have "distinct (map keyOf (map snd (generated rx fresh L plan R S)))"
    unfolding generated_keyOf by (rule generated_distinct)
  then have "inj_on keyOf (set (map snd (generated rx fresh L plan R S)))"
    by (simp only: distinct_map)
  with assms show ?thesis by (simp only: inj_on_def)
qed

subsection \<open>The versioning handlers\<close>

lemma find_replace_same:
  "id_r (content f) = k \<Longrightarrow>
   find (\<lambda>r. id_r (content r) = k) (map (\<lambda>r. if id_r (content r) = k then f else r) R) =
     map_option (\<lambda>_. f) (find (\<lambda>r. id_r (content r) = k) R)"
  by (induction R) auto

lemma find_replace_other:
  "id_r (content f) = k \<Longrightarrow> j \<noteq> k \<Longrightarrow>
   find (\<lambda>r. id_r (content r) = j) (map (\<lambda>r. if id_r (content r) = k then f else r) R) =
     find (\<lambda>r. id_r (content r) = j) R"
  by (induction R) auto

lemma ingStep_content:
  "content t' = content t \<Longrightarrow>
   ingStep rx S st idm fresh t' sc = ingStep rx S st idm fresh t sc"
  by (intro ext) (simp add: ingStep_def addIngredient_def Let_def cong: option.case_cong)

lemma handleUpdateRecipe_821_changed:
  assumes "find (\<lambda>r. id_r (content r) = id_r (content updated)) R = Some existing"
    and "contentChanged reordered existing updated"
  shows "handleUpdateRecipe_821 reordered R updated =
           (Recipe ((content updated)\<lparr>version := nextVersion existing\<rparr>)
              (snapshot existing # history existing),
            map (\<lambda>r. if id_r (content r) = id_r (content updated)
                      then Recipe ((content updated)\<lparr>version := nextVersion existing\<rparr>)
                             (snapshot existing # history existing)
                      else r) R)"
  using assms by (simp add: handleUpdateRecipe_821_def Let_def)

lemma pinned_target:
  assumes "0 < v" "v \<le> version (content existing)"
    and "v = version (content existing) \<or> (\<exists>h\<in>set (history existing). version (content h) = v)"
  shows "content (targetRecipe (Recipe ((content updated)\<lparr>version := nextVersion existing\<rparr>)
                                (snapshot existing # history existing)) (Some v)) =
         content (targetRecipe existing (Some v))"
proof (cases "v = version (content existing)")
  case True
  with assms(1) show ?thesis
    by (simp add: targetRecipe_def nextVersion_def snapshot_def)
next
  case False
  with assms(3) obtain h where "find (\<lambda>h. version (content h) = v) (history existing) = Some h"
    by (cases "find (\<lambda>h. version (content h) = v) (history existing)") (auto simp: find_None_iff)
  with False assms(1,2) show ?thesis
    by (simp add: targetRecipe_def nextVersion_def snapshot_def)
qed

lemma mealStep_pinned:
  assumes ex: "find (\<lambda>r. id_r (content r) = id_r (content updated)) R = Some existing"
    and ch: "contentChanged reordered existing updated"
    and pin: "recipe_id meal = id_r (content updated) \<longrightarrow>
              (\<exists>v. recipe_version meal = Some v \<and> 0 < v \<and> v \<le> version (content existing) \<and>
                   (v = version (content existing) \<or>
                    (\<exists>h\<in>set (history existing). version (content h) = v)))"
  shows "mealStep rx S st idm fresh (snd (handleUpdateRecipe_821 reordered R updated)) gm meal =
         mealStep rx S st idm fresh R gm meal"
proof (cases "recipe_id meal = id_r (content updated)")
  case False
  then show ?thesis
    unfolding handleUpdateRecipe_821_changed[OF ex ch] mealStep_def
    by (simp add: find_replace_other)
next
  case True
  with pin obtain v where v: "recipe_version meal = Some v" "0 < v" "v \<le> version (content existing)"
    "v = version (content existing) \<or> (\<exists>h\<in>set (history existing). version (content h) = v)"
    by blast
  let ?f = "Recipe ((content updated)\<lparr>version := nextVersion existing\<rparr>)
              (snapshot existing # history existing)"
  have c: "content (targetRecipe ?f (recipe_version meal)) =
           content (targetRecipe existing (recipe_version meal))"
    unfolding v(1) using v(2-4) by (rule pinned_target)
  show ?thesis
    unfolding handleUpdateRecipe_821_changed[OF ex ch] mealStep_def
    using True ex c
    by (simp add: find_replace_same Let_def assignedServings_def ingStep_content[OF c])
qed

lemma handleUpdateRecipe_325_changed:
  assumes "find (\<lambda>r. id_r (content r) = id_r (content updated)) R = Some existing"
    and "contentChanged reordered existing updated"
  shows "fst (handleUpdateRecipe_325 reordered R updated) =
           Recipe ((content updated)\<lparr>version := nextVersion existing\<rparr>)
             (history existing @ [existing])"
  using assms by (simp add: handleUpdateRecipe_325_def Let_def)

subsection \<open>Scores\<close>

lemma js_or_rating_le:
  "(\<And>x. a = Some x \<Longrightarrow> x \<le> 5) \<Longrightarrow> js_or a 0 \<le> 5"
  by (auto simp: js_or_def split: option.splits)

lemma foldl_rating_le:
  assumes "\<forall>p\<in>set ps. \<forall>x. rating_m p = Some x \<longrightarrow> x \<le> 5"
  shows "foldl (\<lambda>acc curr. acc + js_or (rating_m curr) 0) acc ps \<le> acc + 5 * of_nat (length ps)"
  using assms
proof (induction ps arbitrary: acc)
  case Nil
  show ?case by simp
next
  case (Cons p ps)
  have "js_or (rating_m p) 0 \<le> 5" using Cons.prems by (intro js_or_rating_le) simp
  moreover have "foldl (\<lambda>acc curr. acc + js_or (rating_m curr) 0) (acc + js_or (rating_m p) 0) ps
        \<le> (acc + js_or (rating_m p) 0) + 5 * of_nat (length ps)"
    using Cons.prems by (intro Cons.IH) simp
  ultimately show ?case by (simp add: algebra_simps)
qed

lemma avg_rating_le:
  assumes "\<forall>p\<in>set ps. \<forall>x. rating_m p = Some x \<longrightarrow> x \<le> 5" and "0 < length ps"
  shows "foldl (\<lambda>acc curr. acc + js_or (rating_m curr) 0) 0 ps / of_nat (length ps) \<le> (5::rat)"
proof -
  have "foldl (\<lambda>acc curr. acc + js_or (rating_m curr) 0) 0 ps \<le> 5 * of_nat (length ps)"
    using foldl_rating_le[OF assms(1), of 0] by simp
  moreover have "(0::rat) < of_nat (length ps)" using assms(2) by simp
  ultimately show ?thesis by (simp add: pos_divide_le_eq)
qed

lemma latest_date:
  assumes "d \<in> set ds" and "\<forall>x\<in>set ds. x \<le> d"
  shows "\<exists>rest. rev (sort ds) = d # rest"
proof -
  have ne: "sort ds \<noteq> []" using assms(1) by (metis empty_iff list.set(1) set_sort)
  have s: "sorted (sort ds)" by simp
  have "last (sort ds) \<in> set ds" using ne by (metis last_in_set set_sort)
  then have le: "last (sort ds) \<le> d" using assms(2) by blast
  have "d \<in> set (sort ds)" using assms(1) by simp
  then obtain i where i: "i < length (sort ds)" "sort ds ! i = d" by (meson in_set_conv_nth)
  then have "d \<le> last (sort ds)"
    using s ne by (metis One_nat_def Suc_pred last_conv_nth length_greater_0_conv less_Suc_eq_le sorted_nth_mono diff_less zero_less_one)
  with le have "last (sort ds) = d" by simp
  then have "hd (rev (sort ds)) = d" using ne by (simp add: hd_rev)
  moreover have "rev (sort ds) \<noteq> []" using ne by simp
  ultimately show ?thesis by (metis list.collapse)
qed

lemma score_never_eaten:
  assumes "\<forall>p\<in>set newPlan. recipe_id p \<noteq> id_r (content A)"
    and "rating (content A) = Some 5"
  shows "scoreRecipe newPlan dateStr r A =
           \<lparr>id_sc = id_r (content A), score = 110 + r * 10, daysSince = 100\<rparr>"
proof -
  have "filter (\<lambda>p. recipe_id p = id_r (content A) \<and> js_or (rating_m p) 0 \<noteq> 0) newPlan = []"
    and "filter (\<lambda>p. recipe_id p = id_r (content A) \<and> date p < dateStr) newPlan = []"
    using assms(1) by (simp_all add: filter_empty_conv)
  then show ?thesis using assms(2) by (simp add: scoreRecipe_def js_or_def)
qed

lemma score_eaten_yesterday:
  assumes "\<exists>p\<in>set newPlan. recipe_id p = id_r (content B) \<and> date p = dateStr - 1"
    and "rating (content B) = Some 5"
    and "\<forall>p\<in>set newPlan. \<forall>x. rating_m p = Some x \<longrightarrow> x \<le> 5"
    and "r < 1"
  shows "id_sc (scoreRecipe newPlan dateStr r B) = id_r (content B) \<and>
         daysSince (scoreRecipe newPlan dateStr r B) = 1 \<and>
         score (scoreRecipe newPlan dateStr r B) < 52 - 10000 + 10"
proof -
  let ?rated = "filter (\<lambda>p. recipe_id p = id_r (content B) \<and> js_or (rating_m p) 0 \<noteq> 0) newPlan"
  let ?ds = "map date (filter (\<lambda>p. recipe_id p = id_r (content B) \<and> date p < dateStr) newPlan)"
  let ?avg = "if 0 < length ?rated
              then foldl (\<lambda>acc curr. acc + js_or (rating_m curr) 0) 0 ?rated / of_nat (length ?rated)
              else js_or (rating (content B)) (7 / 2)"
  have avg: "?avg \<le> 5"
  proof (cases "0 < length ?rated")
    case True
    have "\<forall>p\<in>set ?rated. \<forall>x. rating_m p = Some x \<longrightarrow> x \<le> 5" using assms(3) by auto
    from avg_rating_le[OF this True] True show ?thesis by simp
  next
    case False
    then show ?thesis using assms(2) by (simp add: js_or_def)
  qed
  have "dateStr - 1 \<in> set ?ds" using assms(1) by force
  moreover have "\<forall>x\<in>set ?ds. x \<le> dateStr - 1" by auto
  ultimately obtain rest where ds: "rev (sort ?ds) = (dateStr - 1) # rest"
    using latest_date by blast
  have sc: "scoreRecipe newPlan dateStr r B =
        \<lparr>id_sc = id_r (content B), score = ?avg * 10 + 2 - 10000 + r * 10, daysSince = 1\<rparr>"
    unfolding scoreRecipe_def Let_def ds by simp
  have "?avg * 10 + 2 - 10000 + r * 10 < 52 - 10000 + 10"
    using avg assms(4) by linarith
  then show ?thesis unfolding sc by simp
qed

lemma bestMatch_pair:
  "score b < score a \<Longrightarrow> bestMatch [a, b] = Some a \<and> bestMatch [b, a] = Some a"
  by (simp add: bestMatch_def)


lemma generateDay_extends:
  "\<exists>xs. generateDay rnd newId recipes todayStr newPlan dateStr = newPlan @ xs"
  by (simp add: generateDay_def split: option.splits)

lemma foldl_generateDay_extends:
  "\<exists>xs. foldl (\<lambda>newPlan i. generateDay (random i) (now i + i) recipes todayStr newPlan (dateOf i))
           newPlan is = newPlan @ xs"
proof (induction "is" arbitrary: newPlan)
  case Nil
  show ?case by simp
next
  case (Cons i "is")
  obtain xs where 1: "generateDay (random i) (now i + i) recipes todayStr newPlan (dateOf i)
                     = newPlan @ xs"
    using generateDay_extends by blast
  from Cons.IH[of "newPlan @ xs"] obtain ys where
    "foldl (\<lambda>newPlan i. generateDay (random i) (now i + i) recipes todayStr newPlan (dateOf i))
       (newPlan @ xs) is = (newPlan @ xs) @ ys" by blast
  with 1 show ?case by simp
qed

lemma handleGeneratePlan_first:
  "\<exists>rest. handleGeneratePlan random now dateOf recipes todayStr plan =
           generateDay (random 0) (now 0) recipes todayStr plan (dateOf 0) @ rest"
proof -
  have "[0..<7] = 0 # [1..<7]" by (simp add: upt_rec)
  then have "handleGeneratePlan random now dateOf recipes todayStr plan =
        foldl (\<lambda>newPlan i. generateDay (random i) (now i + i) recipes todayStr newPlan (dateOf i))
          (generateDay (random 0) (now 0) recipes todayStr plan (dateOf 0)) [1..<7]"
    by (simp add: handleGeneratePlan_def)
  then show ?thesis using foldl_generateDay_extends by metis
qed

subsection \<open>Keys and pairs\<close>

lemma toLowerCaseChar_hyphen: "toLowerCaseChar c = CHR ''-'' \<longleftrightarrow> c = CHR ''-''"
proof
  assume "c = CHR ''-''"
  then show "toLowerCaseChar c = CHR ''-''" by (simp add: toLowerCaseChar_def)
next
  assume a: "toLowerCaseChar c = CHR ''-''"
  let ?n = "of_char c :: nat"
  show "c = CHR ''-''"
  proof (cases "(65 \<le> ?n \<and> ?n \<le> 90) \<or> (192 \<le> ?n \<and> ?n \<le> 222 \<and> ?n \<noteq> 215)")
    case True
    with a have "char_of (?n + 32) = CHR ''-''" by (simp add: toLowerCaseChar_def Let_def)
    then have "(of_char (char_of (?n + 32)) :: nat) = of_char (CHR ''-'')" by simp
    then have "(?n + 32) mod 256 = 45" by (simp only: of_char_of) simp
    moreover have "(?n + 32) mod 256 = ?n + 32" using True by auto
    ultimately show ?thesis using True by auto
  next
    case False
    with a show ?thesis by (simp add: toLowerCaseChar_def Let_def)
  qed
qed

lemma toLowerCase_hyphen: "CHR ''-'' \<in> set (toLowerCase n) \<longleftrightarrow> CHR ''-'' \<in> set n"
  unfolding toLowerCase_def set_map image_iff by (metis toLowerCaseChar_hyphen)

lemma key_eq_pair:
  "CHR ''-'' \<notin> set a \<Longrightarrow> CHR ''-'' \<notin> set a' \<Longrightarrow>
   (a @ ''-'' @ b = a' @ ''-'' @ b') = (a = a' \<and> b = b')"
proof (induction a arbitrary: a')
  case Nil
  then show ?case by (cases a') auto
next
  case (Cons x a)
  then show ?case by (cases a') auto
qed

lemma itemKey_eq_pair:
  assumes "CHR ''-'' \<notin> set n" "CHR ''-'' \<notin> set n'"
  shows "(toLowerCase n @ ''-'' @ toLowerCase u = toLowerCase n' @ ''-'' @ toLowerCase u') =
         (toLowerCase n = toLowerCase n' \<and> toLowerCase u = toLowerCase u')"
  using assms by (intro key_eq_pair) (simp_all add: toLowerCase_hyphen)

lemma matchQuantity_contributions:
  "matchQuantity rx S R plan wanted =
     sum_list (map lineQuantity
       (filter (\<lambda>c. wanted (snd (snd c))) (concat (map (contributions rx S R) plan))))"
proof -
  have one: "(case find (\<lambda>r. id_r (content r) = recipe_id meal) R of
          None \<Rightarrow> 0
        | Some recipe \<Rightarrow>
            (let target = targetRecipe recipe (recipe_version meal)
             in sum_list (map (\<lambda>ing. quantity ing *
                                 (js_or (servings meal) (servings_default (content target)) /
                                  servings_default (content target)))
                  (filter (\<lambda>ing. \<not> isStaple rx S (item_name ing) \<and> wanted ing)
                     (ingredients (content target)))))) =
        sum_list (map lineQuantity (filter (\<lambda>c. wanted (snd (snd c))) (contributions rx S R meal)))"
    for meal
    by (simp add: contributions_def Let_def filter_map comp_def lineQuantity_def
        assignedServings_def split: option.splits)
  show ?thesis
    unfolding matchQuantity_def one
    by (induction plan) simp_all
qed

lemma contributions_target:
  "c \<in> set (contributions rx S R meal) \<Longrightarrow>
   \<exists>recipe. find (\<lambda>r. id_r (content r) = recipe_id meal) R = Some recipe \<and>
            fst c = targetRecipe recipe (recipe_version meal) \<and>
            snd (snd c) \<in> set (ingredients (content (fst c)))"
  by (cases "find (\<lambda>r. id_r (content r) = recipe_id meal) R")
    (auto simp: contributions_def Let_def)

lemma generated_hyphen_free:
  assumes "\<forall>c\<in>set (concat (map (contributions rx S R) plan)). CHR ''-'' \<notin> set (item_name (snd (snd c)))"
  shows "g \<in> set (map snd (generated rx fresh L plan R S)) \<Longrightarrow> CHR ''-'' \<notin> set (item_name g)"
proof -
  have "\<forall>x\<in>set (foldl (addLine (statusMap L) (idMap L) fresh) []
                   (concat (map (contributions rx S R) plan))).
          CHR ''-'' \<notin> set (item_name (snd x))"
    by (rule run_names) (use assms in auto)
  then show "g \<in> set (map snd (generated rx fresh L plan R S)) \<Longrightarrow> CHR ''-'' \<notin> set (item_name g)"
    unfolding generated_contributions by auto
qed

lemma generated_quantity:
  assumes "g \<in> set (map snd (generated rx fresh L plan R S))"
  shows "quantity g =
           keyQuantity rx S R plan (toLowerCase (item_name g) @ ''-'' @ toLowerCase (unit g))"
proof -
  from assms obtain k where mem: "(k, g) \<in> set (generated rx fresh L plan R S)" by auto
  then have k: "itemKey (item_name g) (unit g) = k" by (rule generated_key)
  from mem have "map_of (generated rx fresh L plan R S) k = Some g"
    using generated_distinct by (simp add: map_of_eq_Some_iff)
  then have "quantity g = quantityAt (generated rx fresh L plan R S) k"
    by (simp add: quantityAt_def)
  also have "\<dots> = sum_list (map lineQuantity
          (filter (\<lambda>c. lineKey c = k) (concat (map (contributions rx S R) plan))))"
    unfolding generated_contributions run_quantityAt by (simp add: quantityAt_def)
  also have "\<dots> = keyQuantity rx S R plan (toLowerCase (item_name g) @ ''-'' @ toLowerCase (unit g))"
    unfolding keyQuantity_def matchQuantity_contributions k[symmetric]
    by (simp add: lineKey_def itemKey_def case_prod_beta)
  finally show ?thesis .
qed

subsection \<open>Word boundaries\<close>




section \<open>Conservation of quantities\<close>

text \<open>
  Claim C1, as stated, fails: the key of a line is the string
  \<^verbatim>\<open>`${item_name.toLowerCase()}-${unit.toLowerCase()}`\<close>, not the pair. The ingredients
  \<open>olive\<close> in \<open>oil-ml\<close> (3) and \<open>olive-oil\<close> in \<open>ml\<close> (4) share the key
  \<open>olive-oil-ml\<close>: the output has the single line \<open>olive\<close>, \<open>oil-ml\<close> with quantity 7,
  where the plan asks for 3 of that name and unit.
\<close>

theorem aggregate_pair_conservation_counterexample:
  "map lineSummary
     (mergeShoppingList literalWordEngine sevenFresh [] [collisionMeal] [collisionRecipe] []) =
     [(''olive'', ''oil-ml'', 7)] \<and>
   pairQuantity literalWordEngine [] [collisionRecipe] [collisionMeal] ''olive'' ''oil-ml'' = 3"
  by code_simp

text \<open>
  Claim C1, amended. Where the recipes the plan items resolve to have a \<open>servings_default\<close>
  other than 0, every generated line of the output carries as quantity the sum of
  \<open>ingredient.quantity * (assignedServings / servings_default)\<close> over the non-staple
  ingredients, of the recipes the plan items resolve to, whose key string is the line's;
  when no ingredient name of these recipes contains a hyphen, these are the ingredients with
  the line's lower-cased name and unit; and the key strings of the generated lines are
  those of the contributions. Quantities are exact rationals.
\<close>

theorem aggregate_conservation:
  assumes "\<forall>meal\<in>set plan. \<forall>recipe.
             find (\<lambda>r. id_r (content r) = recipe_id meal) R = Some recipe \<longrightarrow>
             servings_default (content (targetRecipe recipe (recipe_version meal))) \<noteq> 0"
  shows "(\<forall>g\<in>set (filter (\<lambda>x. \<not> is_manually_added x) (mergeShoppingList rx fresh L plan R S)).
            quantity g =
              keyQuantity rx S R plan (toLowerCase (item_name g) @ ''-'' @ toLowerCase (unit g))) \<and>
         ((\<forall>meal\<in>set plan. \<forall>recipe.
             find (\<lambda>r. id_r (content r) = recipe_id meal) R = Some recipe \<longrightarrow>
             (\<forall>ing\<in>set (ingredients (content (targetRecipe recipe (recipe_version meal)))).
                CHR ''-'' \<notin> set (item_name ing))) \<longrightarrow>
          (\<forall>g\<in>set (filter (\<lambda>x. \<not> is_manually_added x) (mergeShoppingList rx fresh L plan R S)).
             quantity g = pairQuantity rx S R plan (item_name g) (unit g))) \<and>
         (\<lambda>g. toLowerCase (item_name g) @ ''-'' @ toLowerCase (unit g)) `
            set (filter (\<lambda>x. \<not> is_manually_added x) (mergeShoppingList rx fresh L plan R S)) =
           (\<lambda>c. toLowerCase (item_name (snd (snd c))) @ ''-'' @ toLowerCase (unit (snd (snd c)))) `
             set (concat (map (contributions rx S R) plan))"
proof (intro conjI impI ballI)
  fix g
  assume "g \<in> set (filter (\<lambda>x. \<not> is_manually_added x) (mergeShoppingList rx fresh L plan R S))"
  then show "quantity g =
      keyQuantity rx S R plan (toLowerCase (item_name g) @ ''-'' @ toLowerCase (unit g))"
    unfolding filter_generated by (rule generated_quantity)
next
  fix g
  assume hy: "\<forall>meal\<in>set plan. \<forall>recipe.
             find (\<lambda>r. id_r (content r) = recipe_id meal) R = Some recipe \<longrightarrow>
             (\<forall>ing\<in>set (ingredients (content (targetRecipe recipe (recipe_version meal)))).
                CHR ''-'' \<notin> set (item_name ing))"
    and "g \<in> set (filter (\<lambda>x. \<not> is_manually_added x) (mergeShoppingList rx fresh L plan R S))"
  then have g: "g \<in> set (map snd (generated rx fresh L plan R S))"
    unfolding filter_generated by simp
  have free: "\<forall>c\<in>set (concat (map (contributions rx S R) plan)).
                CHR ''-'' \<notin> set (item_name (snd (snd c)))"
  proof
    fix c assume "c \<in> set (concat (map (contributions rx S R) plan))"
    then obtain meal where m: "meal \<in> set plan" "c \<in> set (contributions rx S R meal)" by auto
    from contributions_target[OF m(2)] hy m(1) show "CHR ''-'' \<notin> set (item_name (snd (snd c)))"
      by auto
  qed
  have gfree: "CHR ''-'' \<notin> set (item_name g)"
    using free g by (rule generated_hyphen_free)
  have "filter (\<lambda>c. toLowerCase (item_name (snd (snd c))) @ ''-'' @ toLowerCase (unit (snd (snd c))) =
                     toLowerCase (item_name g) @ ''-'' @ toLowerCase (unit g))
          (concat (map (contributions rx S R) plan)) =
        filter (\<lambda>c. toLowerCase (item_name (snd (snd c))) = toLowerCase (item_name g) \<and>
                    toLowerCase (unit (snd (snd c))) = toLowerCase (unit g))
          (concat (map (contributions rx S R) plan))"
  proof (rule filter_cong[OF refl])
    fix c assume "c \<in> set (concat (map (contributions rx S R) plan))"
    with free have "CHR ''-'' \<notin> set (item_name (snd (snd c)))" by blast
    then show "(toLowerCase (item_name (snd (snd c))) @ ''-'' @ toLowerCase (unit (snd (snd c))) =
                toLowerCase (item_name g) @ ''-'' @ toLowerCase (unit g)) =
               (toLowerCase (item_name (snd (snd c))) = toLowerCase (item_name g) \<and>
                toLowerCase (unit (snd (snd c))) = toLowerCase (unit g))"
      using gfree by (rule itemKey_eq_pair)
  qed
  then have "keyQuantity rx S R plan (toLowerCase (item_name g) @ ''-'' @ toLowerCase (unit g)) =
             pairQuantity rx S R plan (item_name g) (unit g)"
    unfolding keyQuantity_def pairQuantity_def matchQuantity_contributions by simp
  with generated_quantity[OF g] show "quantity g = pairQuantity rx S R plan (item_name g) (unit g)"
    by simp
next
  have "(\<lambda>g. toLowerCase (item_name g) @ ''-'' @ toLowerCase (unit g)) `
          set (map snd (generated rx fresh L plan R S)) =
        set (map fst (generated rx fresh L plan R S))"
    using generated_item_keys[of rx fresh L plan R S] by (simp add: itemKey_def)
  also have "\<dots> = lineKey ` set (concat (map (contributions rx S R) plan))"
    by (rule generated_keys)
  also have "\<dots> = (\<lambda>c. toLowerCase (item_name (snd (snd c))) @ ''-'' @ toLowerCase (unit (snd (snd c)))) `
             set (concat (map (contributions rx S R) plan))"
    by (rule image_cong[OF refl]) (simp add: lineKey_def itemKey_def case_prod_beta)
  finally show "(\<lambda>g. toLowerCase (item_name g) @ ''-'' @ toLowerCase (unit g)) `
            set (filter (\<lambda>x. \<not> is_manually_added x) (mergeShoppingList rx fresh L plan R S)) =
           (\<lambda>c. toLowerCase (item_name (snd (snd c))) @ ''-'' @ toLowerCase (unit (snd (snd c)))) `
             set (concat (map (contributions rx S R) plan))"
    unfolding filter_generated .
qed


text \<open>Milk in litres under two spellings is one line, milk in decilitres another, the eggs
  one; the sea salt is a staple. Scenario A: the salt is left out, the chicken doubled.\<close>

theorem aggregate_conservation_witness:
  "map lineSummary
     (mergeShoppingList literalWordEngine sevenFresh [] [scenarioA_meal] [dairyRecipe] [''salt'']) =
     [(''Milk'', ''l'', 6), (egg, ''pc'', 12), (''Milk'', ''dl'', 4)] \<and>
   quantity milkLine =
     pairQuantity literalWordEngine [''salt''] [dairyRecipe] [scenarioA_meal] ''Milk'' ''l'' \<and>
   pairQuantity literalWordEngine [''salt''] [dairyRecipe] [scenarioA_meal] ''Milk'' ''l'' =
     1 * (8 / 4) + 2 * (8 / 4) \<and>
   mergeShoppingList literalWordEngine sevenFresh [] [scenarioA_meal] [scenarioA_recipe] [''Salt'']
     = [scenarioA_line]"
proof -
  let ?out = "mergeShoppingList literalWordEngine sevenFresh [] [scenarioA_meal] [dairyRecipe] [''salt'']"
  have f: "find (\<lambda>r. id_r (content r) = recipe_id scenarioA_meal) [dairyRecipe] = Some dairyRecipe"
    by (simp add: scenarioA_meal_def dairyRecipe_def scenarioA_recipe_def)
  have t: "targetRecipe dairyRecipe (recipe_version scenarioA_meal) = dairyRecipe"
    by (simp add: scenarioA_meal_def dairyRecipe_def scenarioA_recipe_def targetRecipe_def)
  have 1: "\<forall>meal\<in>set [scenarioA_meal]. \<forall>recipe.
             find (\<lambda>r. id_r (content r) = recipe_id meal) [dairyRecipe] = Some recipe \<longrightarrow>
             servings_default (content (targetRecipe recipe (recipe_version meal))) \<noteq> 0"
    using f t by (simp add: dairyRecipe_def scenarioA_recipe_def)
  have 2: "\<forall>meal\<in>set [scenarioA_meal]. \<forall>recipe.
             find (\<lambda>r. id_r (content r) = recipe_id meal) [dairyRecipe] = Some recipe \<longrightarrow>
             (\<forall>ing\<in>set (ingredients (content (targetRecipe recipe (recipe_version meal)))).
                CHR ''-'' \<notin> set (item_name ing))"
    using f t by (simp add: dairyRecipe_def egg_def eggLower_def)
  have s: "map lineSummary ?out = [(''Milk'', ''l'', 6), (egg, ''pc'', 12), (''Milk'', ''dl'', 4)]"
    by code_simp
  have h: "hd ?out = milkLine" by code_simp
  have ne: "?out \<noteq> []" using s by auto
  have mem: "milkLine \<in> set (filter (\<lambda>x. \<not> is_manually_added x) ?out)"
    using h ne hd_in_set[OF ne] by (simp add: milkLine_def)
  from aggregate_conservation[OF 1, where rx = literalWordEngine and fresh = sevenFresh
      and L = "[]" and S = "[''salt'']", THEN conjunct2, THEN conjunct1, THEN mp, OF 2,
      THEN bspec, OF mem]
  have q: "quantity milkLine =
     pairQuantity literalWordEngine [''salt''] [dairyRecipe] [scenarioA_meal] ''Milk'' ''l''"
    by (simp add: milkLine_def)
  have p: "pairQuantity literalWordEngine [''salt''] [dairyRecipe] [scenarioA_meal] ''Milk'' ''l'' =
     1 * (8 / 4) + 2 * (8 / 4)"
    by code_simp
  have a: "mergeShoppingList literalWordEngine sevenFresh [] [scenarioA_meal] [scenarioA_recipe]
     [''Salt''] = [scenarioA_line]"
    by code_simp
  from s q p a show ?thesis by blast
qed

section \<open>Staple exclusion\<close>




section \<open>Manual items\<close>

text \<open>
  Claim C8. The output of \<open>mergeShoppingList\<close> is the manually added items of the previous
  list, unchanged and in their order, followed by the generated lines; no generated line is
  marked as manually added, so the manual items of the output are exactly those of the
  input.
\<close>

theorem manual_preservation:
  "mergeShoppingList rx fresh L plan R S =
     filter is_manually_added L @ map snd (generated rx fresh L plan R S) \<and>
   (\<forall>g\<in>set (map snd (generated rx fresh L plan R S)). \<not> is_manually_added g) \<and>
   (\<forall>x\<in>set L. is_manually_added x \<longrightarrow> x \<in> set (mergeShoppingList rx fresh L plan R S)) \<and>
   filter is_manually_added (mergeShoppingList rx fresh L plan R S) = filter is_manually_added L"
proof (intro conjI ballI impI)
  show "mergeShoppingList rx fresh L plan R S =
     filter is_manually_added L @ map snd (generated rx fresh L plan R S)"
    by (simp add: mergeShoppingList_def)
  show "\<not> is_manually_added g" if "g \<in> set (map snd (generated rx fresh L plan R S))" for g
    using that by (rule generated_nonmanual)
  show "x \<in> set (mergeShoppingList rx fresh L plan R S)"
    if "x \<in> set L" "is_manually_added x" for x
    using that by (simp add: mergeShoppingList_def)
  show "filter is_manually_added (mergeShoppingList rx fresh L plan R S) = filter is_manually_added L"
    by (rule filter_manual)
qed

theorem manual_preservation_witness:
  "mergeShoppingList literalWordEngine (\<lambda>n. 7) [oldChicken, paperTowels] [scenarioA_meal]
     [scenarioA_recipe] [''Salt''] =
     [paperTowels, scenarioA_line\<lparr>id_s := 42, checked := True\<rparr>] \<and>
   paperTowels \<in> set (mergeShoppingList literalWordEngine (\<lambda>n. 7) [oldChicken, paperTowels]
     [scenarioA_meal] [scenarioA_recipe] [''Salt'']) \<and>
   \<not> is_manually_added (scenarioA_line\<lparr>id_s := 42, checked := True\<rparr>)"
proof -
  let ?L = "[oldChicken, paperTowels]"
  note inst = manual_preservation[of literalWordEngine "\<lambda>n. 7" ?L "[scenarioA_meal]"
      "[scenarioA_recipe]" "[''Salt'']"]
  have g: "map snd (generated literalWordEngine (\<lambda>n. 7) ?L [scenarioA_meal] [scenarioA_recipe]
             [''Salt'']) = [scenarioA_line\<lparr>id_s := 42, checked := True\<rparr>]"
    by code_simp
  have f: "filter is_manually_added ?L = [paperTowels]"
    by (simp add: oldChicken_def paperTowels_def)
  have m: "paperTowels \<in> set ?L \<and> is_manually_added paperTowels"
    by (simp add: paperTowels_def)
  from inst[THEN conjunct1] have 1: "mergeShoppingList literalWordEngine (\<lambda>n. 7) ?L [scenarioA_meal]
     [scenarioA_recipe] [''Salt''] = [paperTowels, scenarioA_line\<lparr>id_s := 42, checked := True\<rparr>]"
    unfolding g f by simp
  from inst[THEN conjunct2, THEN conjunct2, THEN conjunct1, rule_format, of paperTowels] m
  have 2: "paperTowels \<in> set (mergeShoppingList literalWordEngine (\<lambda>n. 7) ?L
     [scenarioA_meal] [scenarioA_recipe] [''Salt''])" by blast
  from inst[THEN conjunct2, THEN conjunct1, rule_format, of "scenarioA_line\<lparr>id_s := 42, checked := True\<rparr>"]
  have 3: "\<not> is_manually_added (scenarioA_line\<lparr>id_s := 42, checked := True\<rparr>)"
    unfolding g by simp
  from 1 2 3 show ?thesis by blast
qed

section \<open>Version resolution\<close>

text \<open>
  Claim C6. For a recipe and a pinned version \<open>v\<close>, resolution returns the recipe itself
  when \<open>v\<close> is its version, otherwise the first history entry of version \<open>v\<close> when there is
  one, otherwise the recipe itself. \<open>targetRecipe\<close> is a total function without an error
  branch, as the source has none. Versions start at 1: the statement is for \<open>v \<noteq> 0\<close>, or
  for a history without an entry of version 0 (a pinned version 0 is falsy in the source
  and resolves to the current recipe). On the versions its selector offers, the version
  selector of the recipe view resolves to the same recipe.
\<close>

theorem targetRecipe_resolution:
  assumes "v \<noteq> 0 \<or> (\<forall>h\<in>set (history recipe). version (content h) \<noteq> 0)"
  shows "(v = version (content recipe) \<longrightarrow> targetRecipe recipe (Some v) = recipe) \<and>
         (v \<noteq> version (content recipe) \<longrightarrow>
           targetRecipe recipe (Some v) =
             (case find (\<lambda>h. version (content h) = v) (history recipe) of
                Some historical \<Rightarrow> historical | None \<Rightarrow> recipe)) \<and>
         (v = version (content recipe) \<or> (\<exists>h\<in>set (history recipe). version (content h) = v) \<longrightarrow>
           handleChangeVersion recipe viewedRecipe v = targetRecipe recipe (Some v))"
proof (cases "v = 0")
  case True
  with assms have "find (\<lambda>h. version (content h) = v) (history recipe) = None"
    by (auto simp: find_None_iff)
  moreover from True assms have "\<not> (\<exists>h\<in>set (history recipe). version (content h) = v)"
    by auto
  ultimately show ?thesis by (auto simp: targetRecipe_def handleChangeVersion_def)
next
  case False
  then show ?thesis
    by (auto simp: targetRecipe_def handleChangeVersion_def find_None_iff split: option.splits)
qed

theorem targetRecipe_resolution_witness:
  "targetRecipe pinnedRecipe (Some 3) = pinnedRecipe \<and>
   targetRecipe pinnedRecipe (Some 1) = scenarioA_recipe \<and>
   targetRecipe pinnedRecipe (Some 7) = pinnedRecipe \<and>
   targetRecipe pinnedRecipe (Some 0) = pinnedRecipe \<and>
   handleChangeVersion pinnedRecipe pinnedRecipe 1 = scenarioA_recipe"
proof -
  have h: "\<forall>h\<in>set (history pinnedRecipe). version (content h) \<noteq> 0"
    by (simp add: pinnedRecipe_def scenarioA_recipe_def)
  have v: "version (content pinnedRecipe) = 3" by (simp add: pinnedRecipe_def)
  have f1: "find (\<lambda>h. version (content h) = 1) (history pinnedRecipe) = Some scenarioA_recipe"
    by (simp add: pinnedRecipe_def scenarioA_recipe_def)
  have f7: "find (\<lambda>h. version (content h) = 7) (history pinnedRecipe) = None"
    by (simp add: pinnedRecipe_def scenarioA_recipe_def)
  have f0: "find (\<lambda>h. version (content h) = 0) (history pinnedRecipe) = None"
    by (simp add: pinnedRecipe_def scenarioA_recipe_def)
  from targetRecipe_resolution[of 3 pinnedRecipe] v
  have 1: "targetRecipe pinnedRecipe (Some 3) = pinnedRecipe" by simp
  from targetRecipe_resolution[of 1 pinnedRecipe] v f1
  have 2: "targetRecipe pinnedRecipe (Some 1) = scenarioA_recipe" by simp
  from targetRecipe_resolution[of 7 pinnedRecipe] v f7
  have 3: "targetRecipe pinnedRecipe (Some 7) = pinnedRecipe" by simp
  from targetRecipe_resolution[of 0 pinnedRecipe] h v f0
  have 4: "targetRecipe pinnedRecipe (Some 0) = pinnedRecipe" by simp
  have "\<exists>h\<in>set (history pinnedRecipe). version (content h) = 1"
    by (simp add: pinnedRecipe_def scenarioA_recipe_def)
  with targetRecipe_resolution[of 1 pinnedRecipe pinnedRecipe] 2
  have 5: "handleChangeVersion pinnedRecipe pinnedRecipe 1 = scenarioA_recipe" by simp
  from 1 2 3 4 5 show ?thesis by blast
qed

section \<open>Servings of zero\<close>

text \<open>
  Claim C10. A plan item whose \<open>servings\<close> is 0 is treated as one without servings: the
  assigned servings are the resolved recipe's \<open>servings_default\<close>, and, the default not being
  0, the scale is 1, so that the item contributes every non-staple ingredient with its full
  quantity.
\<close>

theorem zero_servings_default:
  assumes "servings meal = Some 0"
    and "find (\<lambda>r. id_r (content r) = recipe_id meal) R = Some recipe"
    and "target = targetRecipe recipe (recipe_version meal)"
    and "servings_default (content target) \<noteq> 0"
  shows "assignedServings meal target = servings_default (content target) \<and>
         mealStep rx S st idm fresh R gm meal =
           mealStep rx S st idm fresh R gm (meal\<lparr>servings := None\<rparr>) \<and>
         mealStep rx S st idm fresh R gm meal =
           foldl (addLine st idm fresh) gm
             (map (\<lambda>ing. (target, 1, ing))
                (filter (\<lambda>ing. \<not> isStaple rx S (item_name ing)) (ingredients (content target))))"
proof (intro conjI)
  show a: "assignedServings meal target = servings_default (content target)"
    using assms(1) by (simp add: assignedServings_def js_or_def)
  show "mealStep rx S st idm fresh R gm meal =
           mealStep rx S st idm fresh R gm (meal\<lparr>servings := None\<rparr>)"
    using assms(1) by (rule mealStep_servings_zero)
  have "contributions rx S R meal =
          map (\<lambda>ing. (target, 1, ing))
            (filter (\<lambda>ing. \<not> isStaple rx S (item_name ing)) (ingredients (content target)))"
    using assms(2) assms(4) a by (simp add: contributions_def assms(3)[symmetric])
  then show "mealStep rx S st idm fresh R gm meal =
           foldl (addLine st idm fresh) gm
             (map (\<lambda>ing. (target, 1, ing))
                (filter (\<lambda>ing. \<not> isStaple rx S (item_name ing)) (ingredients (content target))))"
    by (simp add: mealStep_contributions)
qed

theorem zero_servings_default_witness:
  "servings (scenarioA_meal\<lparr>servings := Some 0\<rparr>) = Some 0 \<and>
   assignedServings (scenarioA_meal\<lparr>servings := Some 0\<rparr>) scenarioA_recipe = 4 \<and>
   mergeShoppingList literalWordEngine (\<lambda>n. 7) [] [scenarioA_meal\<lparr>servings := Some 0\<rparr>]
     [scenarioA_recipe] [''Salt''] = [scenarioA_line\<lparr>quantity := 500\<rparr>]"
proof -
  let ?m = "scenarioA_meal\<lparr>servings := Some 0\<rparr>"
  have 1: "servings ?m = Some 0" by simp
  have 2: "find (\<lambda>r. id_r (content r) = recipe_id ?m) [scenarioA_recipe] = Some scenarioA_recipe"
    by (simp add: scenarioA_meal_def scenarioA_recipe_def)
  have 3: "scenarioA_recipe = targetRecipe scenarioA_recipe (recipe_version ?m)"
    by (simp add: scenarioA_meal_def scenarioA_recipe_def targetRecipe_def)
  have 4: "servings_default (content scenarioA_recipe) \<noteq> 0"
    by (simp add: scenarioA_recipe_def)
  note inst = zero_servings_default[OF 1 2 3 4, of literalWordEngine "[''Salt'']"
      "statusMap []" "idMap []" "\<lambda>n. 7" "[]"]
  have d: "servings_default (content scenarioA_recipe) = 4" by (simp add: scenarioA_recipe_def)
  from inst[THEN conjunct1] d have a: "assignedServings ?m scenarioA_recipe = 4" by simp
  have e: "map snd (foldl (addLine (statusMap []) (idMap []) (\<lambda>n. 7)) []
             (map (\<lambda>ing. (scenarioA_recipe, 1, ing))
                (filter (\<lambda>ing. \<not> isStaple literalWordEngine [''Salt''] (item_name ing))
                   (ingredients (content scenarioA_recipe))))) = [scenarioA_line\<lparr>quantity := 500\<rparr>]"
    by code_simp
  from inst[THEN conjunct2, THEN conjunct2] e
  have b: "mergeShoppingList literalWordEngine (\<lambda>n. 7) [] [?m] [scenarioA_recipe] [''Salt'']
             = [scenarioA_line\<lparr>quantity := 500\<rparr>]"
    by (simp add: mergeShoppingList_def generated_def)
  from 1 a b show ?thesis by blast
qed


section \<open>Idempotence\<close>

text \<open>
  Claim C5. Aggregating the output of an aggregation again, with the same plan, catalog and
  staples, gives that output back, whatever fresh ids the second run is offered: every
  generated line keeps its id and its checked flag, so two generated lines of the two
  outputs with the same key agree on both. The fresh ids of the first run are not 0, as
  \<^verbatim>\<open>Date.now() + Math.random()\<close> never is.
\<close>

theorem aggregate_fixed_point:
  assumes "\<forall>n. fresh n \<noteq> 0"
  shows "mergeShoppingList rx fresh' (mergeShoppingList rx fresh L plan R S) plan R S =
           mergeShoppingList rx fresh L plan R S \<and>
         (\<forall>x\<in>set (mergeShoppingList rx fresh' (mergeShoppingList rx fresh L plan R S) plan R S).
          \<forall>y\<in>set (mergeShoppingList rx fresh L plan R S).
            \<not> is_manually_added x \<and> \<not> is_manually_added y \<and> keyOf x = keyOf y \<longrightarrow>
              id_s x = id_s y \<and> checked x = checked y)"
proof (intro conjI ballI impI)
  show eq: "mergeShoppingList rx fresh' (mergeShoppingList rx fresh L plan R S) plan R S =
           mergeShoppingList rx fresh L plan R S"
    using assms by (rule mergeShoppingList_fixed_point)
  fix x y
  assume x: "x \<in> set (mergeShoppingList rx fresh' (mergeShoppingList rx fresh L plan R S) plan R S)"
    and y: "y \<in> set (mergeShoppingList rx fresh L plan R S)"
    and k: "\<not> is_manually_added x \<and> \<not> is_manually_added y \<and> keyOf x = keyOf y"
  from x k have "x \<in> set (filter (\<lambda>x. \<not> is_manually_added x) (mergeShoppingList rx fresh L plan R S))"
    unfolding eq by simp
  then have x': "x \<in> set (map snd (generated rx fresh L plan R S))"
    unfolding filter_generated .
  from y k have "y \<in> set (filter (\<lambda>x. \<not> is_manually_added x) (mergeShoppingList rx fresh L plan R S))"
    by simp
  then have y': "y \<in> set (map snd (generated rx fresh L plan R S))"
    unfolding filter_generated .
  from x' y' k have "x = y" by (intro generated_key_unique) simp_all
  then show "id_s x = id_s y" and "checked x = checked y" by simp_all
qed


theorem aggregate_fixed_point_witness:
  "mergeShoppingList literalWordEngine (\<lambda>n. 99)
     (mergeShoppingList literalWordEngine (\<lambda>n. 7) [paperTowels] [scenarioA_meal] [scenarioA_recipe]
        [''Salt''])
     [scenarioA_meal] [scenarioA_recipe] [''Salt''] = [paperTowels, scenarioA_line]"
proof -
  have f: "\<forall>n. (\<lambda>n. 7 :: rat) n \<noteq> 0" by simp
  have out: "mergeShoppingList literalWordEngine (\<lambda>n. 7) [paperTowels] [scenarioA_meal]
               [scenarioA_recipe] [''Salt''] = [paperTowels, scenarioA_line]"
    by code_simp
  from aggregate_fixed_point[OF f, of literalWordEngine "\<lambda>n. 99" "[paperTowels]" "[scenarioA_meal]"
      "[scenarioA_recipe]" "[''Salt'']", THEN conjunct1]
  show ?thesis unfolding out .
qed

section \<open>Version pinning\<close>

text \<open>
  Claim C2. Let a recipe of the catalog be edited in its ingredients through the versioning
  handler (line 821), and let every plan item of that recipe be pinned to a version of it:
  its version before the edit, or an earlier one that its history holds. Then the
  aggregate over the plan is the same with the catalog after the edit as with the catalog
  before it.
\<close>

theorem version_pinning:
  assumes "find (\<lambda>r. id_r (content r) = id_r (content updated)) R = Some existing"
    and "ingredients (content updated) \<noteq> ingredients (content existing)"
    and "\<forall>meal\<in>set plan. recipe_id meal = id_r (content updated) \<longrightarrow>
           (\<exists>v. recipe_version meal = Some v \<and> 0 < v \<and> v \<le> version (content existing) \<and>
                (v = version (content existing) \<or>
                 (\<exists>h\<in>set (history existing). version (content h) = v)))"
  shows "mergeShoppingList rx fresh L plan (snd (handleUpdateRecipe_821 reordered R updated)) S =
           mergeShoppingList rx fresh L plan R S"
proof -
  have ch: "contentChanged reordered existing updated"
    using assms(2) by (auto simp: contentChanged_def)
  have "foldl (mealStep rx S st idm fresh (snd (handleUpdateRecipe_821 reordered R updated))) gm plan =
        foldl (mealStep rx S st idm fresh R) gm plan" for st idm gm
    using assms(3)
  proof (induction plan arbitrary: gm)
    case Nil
    show ?case by simp
  next
    case (Cons meal plan)
    then show ?case by (simp add: mealStep_pinned[OF assms(1) ch])
  qed
  then show ?thesis by (simp add: mergeShoppingList_def generated_def)
qed


theorem version_pinning_witness:
  "mergeShoppingList literalWordEngine (\<lambda>n. 7) [] [scenarioA_meal]
     (snd (handleUpdateRecipe_821 False [scenarioA_recipe] editedRecipe)) [''Salt''] = [scenarioA_line] \<and>
   version (content (fst (handleUpdateRecipe_821 False [scenarioA_recipe] editedRecipe))) = 2 \<and>
   ingredients (content (fst (handleUpdateRecipe_821 False [scenarioA_recipe] editedRecipe))) =
     [\<lparr>item_name = ''Chicken'', quantity = 900, unit = ''g'', category = ''Meat''\<rparr>]"
proof -
  have 1: "find (\<lambda>r. id_r (content r) = id_r (content editedRecipe)) [scenarioA_recipe] =
             Some scenarioA_recipe"
    by (simp add: editedRecipe_def scenarioA_recipe_def)
  have 2: "ingredients (content editedRecipe) \<noteq> ingredients (content scenarioA_recipe)"
    by (simp add: editedRecipe_def scenarioA_recipe_def)
  have 3: "\<forall>meal\<in>set [scenarioA_meal]. recipe_id meal = id_r (content editedRecipe) \<longrightarrow>
           (\<exists>v. recipe_version meal = Some v \<and> 0 < v \<and> v \<le> version (content scenarioA_recipe) \<and>
                (v = version (content scenarioA_recipe) \<or>
                 (\<exists>h\<in>set (history scenarioA_recipe). version (content h) = v)))"
    by (simp add: scenarioA_meal_def scenarioA_recipe_def)
  have out: "mergeShoppingList literalWordEngine (\<lambda>n. 7) [] [scenarioA_meal] [scenarioA_recipe]
               [''Salt''] = [scenarioA_line]"
    by code_simp
  from version_pinning[OF 1 2 3, where rx = literalWordEngine and fresh = "\<lambda>n. 7" and L = "[]"
      and S = "[''Salt'']" and reordered = False] out
  have a: "mergeShoppingList literalWordEngine (\<lambda>n. 7) [] [scenarioA_meal]
     (snd (handleUpdateRecipe_821 False [scenarioA_recipe] editedRecipe)) [''Salt''] = [scenarioA_line]"
    by simp
  have b: "version (content (fst (handleUpdateRecipe_821 False [scenarioA_recipe] editedRecipe))) = 2"
    by (simp add: handleUpdateRecipe_821_def contentChanged_def nextVersion_def editedRecipe_def
        scenarioA_recipe_def Let_def)
  have c: "ingredients (content (fst (handleUpdateRecipe_821 False [scenarioA_recipe] editedRecipe))) =
     [\<lparr>item_name = ''Chicken'', quantity = 900, unit = ''g'', category = ''Meat''\<rparr>]"
    by (simp add: handleUpdateRecipe_821_def contentChanged_def nextVersion_def editedRecipe_def
        scenarioA_recipe_def Let_def)
  from a b c show ?thesis by blast
qed

section \<open>Versioning on a content edit\<close>

text \<open>
  Claim C3, as stated, fails: the claim asks for the history of the existing recipe with a
  history-free snapshot of it appended at the end. On a recipe that has a history, the
  handler at line 325 appends the existing recipe with its history, and the handler at
  line 821 puts the history-free snapshot at the front.
\<close>

theorem updateRecipe_append_snapshot_counterexample:
  "history (fst (handleUpdateRecipe_325 False [pinnedRecipe] ingredientsEdit)) \<noteq>
     history pinnedRecipe @ [snapshot pinnedRecipe] \<and>
   history (fst (handleUpdateRecipe_821 False [pinnedRecipe] ingredientsEdit)) \<noteq>
     history pinnedRecipe @ [snapshot pinnedRecipe] \<and>
   ingredients (content ingredientsEdit) \<noteq> ingredients (content pinnedRecipe)"
  by (simp add: handleUpdateRecipe_325_def handleUpdateRecipe_821_def contentChanged_def Let_def
      ingredientsEdit_def pinnedRecipe_def snapshot_def scenarioA_recipe_def)

text \<open>
  Claim C3, amended. For an existing recipe of a version from 1 on, as the data model has
  it, and a proposal whose ingredients or instructions differ, both handlers return a recipe
  whose version is the existing version plus one and whose history is the existing history
  with exactly one entry added, which carries the fields of the existing recipe: the
  handler at line 821 adds it at the front, with an empty history of its own; the handler
  at line 325 adds it at the end.
\<close>

theorem updateRecipe_versioning:
  assumes "find (\<lambda>r. id_r (content r) = id_r (content updated)) R = Some existing"
    and "ingredients (content updated) \<noteq> ingredients (content existing) \<or>
         instructions (content updated) \<noteq> instructions (content existing)"
    and "version (content existing) \<noteq> 0"
  shows "version (content (fst (handleUpdateRecipe_821 reordered R updated))) =
           version (content existing) + 1 \<and>
         history (fst (handleUpdateRecipe_821 reordered R updated)) =
           snapshot existing # history existing \<and>
         content (snapshot existing) = content existing \<and>
         history (snapshot existing) = [] \<and>
         version (content (fst (handleUpdateRecipe_325 reordered R updated))) =
           version (content existing) + 1 \<and>
         (\<exists>entry. history (fst (handleUpdateRecipe_325 reordered R updated)) =
                    history existing @ [entry] \<and>
                  content entry = content existing)"
proof -
  have ch: "contentChanged reordered existing updated"
    using assms(2) by (auto simp: contentChanged_def)
  show ?thesis
    unfolding handleUpdateRecipe_325_changed[OF assms(1) ch]
      handleUpdateRecipe_821_changed[OF assms(1) ch]
    using assms(3) by (simp add: snapshot_def nextVersion_def)
qed

theorem updateRecipe_versioning_witness:
  "version (content (fst (handleUpdateRecipe_821 False [pinnedRecipe] ingredientsEdit))) = 4 \<and>
   history (fst (handleUpdateRecipe_821 False [pinnedRecipe] ingredientsEdit)) =
     snapshot pinnedRecipe # history pinnedRecipe \<and>
   version (content (fst (handleUpdateRecipe_325 False [pinnedRecipe] ingredientsEdit))) = 4 \<and>
   length (history (fst (handleUpdateRecipe_325 False [pinnedRecipe] ingredientsEdit))) = 3 \<and>
   content (last (history (fst (handleUpdateRecipe_325 False [pinnedRecipe] ingredientsEdit)))) =
     content pinnedRecipe"
proof -
  have 1: "find (\<lambda>r. id_r (content r) = id_r (content ingredientsEdit)) [pinnedRecipe] =
             Some pinnedRecipe"
    by (simp add: ingredientsEdit_def)
  have 2: "ingredients (content ingredientsEdit) \<noteq> ingredients (content pinnedRecipe) \<or>
           instructions (content ingredientsEdit) \<noteq> instructions (content pinnedRecipe)"
    by (simp add: ingredientsEdit_def pinnedRecipe_def scenarioA_recipe_def)
  have 3: "version (content pinnedRecipe) \<noteq> 0" "version (content pinnedRecipe) = 3"
    "length (history pinnedRecipe) = 2"
    by (simp_all add: pinnedRecipe_def)
  note inst = updateRecipe_versioning[OF 1 2 3(1), where reordered = False]
  from inst obtain entry where e:
    "history (fst (handleUpdateRecipe_325 False [pinnedRecipe] ingredientsEdit)) =
       history pinnedRecipe @ [entry]" "content entry = content pinnedRecipe"
    by blast
  from inst e 3 show ?thesis by simp
qed

text \<open>
  Claim C4, as stated, fails: an edit of the instructions alone, with the ingredients
  untouched, raises the version and extends the history; and on a recipe that has a
  history, the entry appended on an edit of the ingredients carries that history.
\<close>

theorem updateRecipe_instructions_only_counterexample:
  "ingredients (content instructionsEdit) = ingredients (content scenarioA_recipe) \<and>
   instructions (content instructionsEdit) \<noteq> instructions (content scenarioA_recipe) \<and>
   version (content (fst (handleUpdateRecipe_325 False [scenarioA_recipe] instructionsEdit))) \<noteq>
     version (content scenarioA_recipe) \<and>
   history (fst (handleUpdateRecipe_325 False [scenarioA_recipe] instructionsEdit)) \<noteq>
     history scenarioA_recipe \<and>
   ingredients (content ingredientsEdit) \<noteq> ingredients (content pinnedRecipe) \<and>
   history (last (history (fst (handleUpdateRecipe_325 False [pinnedRecipe] ingredientsEdit)))) \<noteq> []"
  by (simp add: handleUpdateRecipe_325_def contentChanged_def nextVersion_def instructionsEdit_def
      ingredientsEdit_def pinnedRecipe_def scenarioA_recipe_def Let_def)

text \<open>
  Claim C4, amended. For an existing recipe of a version from 1 on and a proposal that
  differs in the instructions, also when the ingredients are the same, or in the
  ingredients, the handler raises the version by exactly one and appends exactly one
  history entry, which carries the fields of the recipe before the edit.
\<close>

theorem updateRecipe_content_edit:
  assumes "find (\<lambda>r. id_r (content r) = id_r (content updated)) R = Some existing"
    and "version (content existing) \<noteq> 0"
  shows "(instructions (content updated) \<noteq> instructions (content existing) \<longrightarrow>
            version (content (fst (handleUpdateRecipe_325 reordered R updated))) =
              version (content existing) + 1 \<and>
            (\<exists>entry. history (fst (handleUpdateRecipe_325 reordered R updated)) =
                       history existing @ [entry] \<and>
                     content entry = content existing)) \<and>
         (ingredients (content updated) \<noteq> ingredients (content existing) \<longrightarrow>
            version (content (fst (handleUpdateRecipe_325 reordered R updated))) =
              version (content existing) + 1 \<and>
            (\<exists>entry. history (fst (handleUpdateRecipe_325 reordered R updated)) =
                       history existing @ [entry] \<and>
                     content entry = content existing))"
proof -
  have "version (content (fst (handleUpdateRecipe_325 reordered R updated))) =
              version (content existing) + 1 \<and>
            (\<exists>entry. history (fst (handleUpdateRecipe_325 reordered R updated)) =
                       history existing @ [entry] \<and>
                     content entry = content existing)"
    if ch: "contentChanged reordered existing updated"
    unfolding handleUpdateRecipe_325_changed[OF assms(1) ch]
    using assms(2) by (simp add: nextVersion_def)
  then show ?thesis by (auto simp: contentChanged_def)
qed

theorem updateRecipe_content_edit_witness:
  "version (content (fst (handleUpdateRecipe_325 False [scenarioA_recipe] instructionsEdit))) = 2 \<and>
   length (history (fst (handleUpdateRecipe_325 False [scenarioA_recipe] instructionsEdit))) = 1 \<and>
   content (last (history (fst (handleUpdateRecipe_325 False [scenarioA_recipe] instructionsEdit)))) =
     content scenarioA_recipe \<and>
   ingredients (content instructionsEdit) = ingredients (content scenarioA_recipe)"
proof -
  have 1: "find (\<lambda>r. id_r (content r) = id_r (content instructionsEdit)) [scenarioA_recipe] =
             Some scenarioA_recipe"
    by (simp add: instructionsEdit_def)
  have 2: "instructions (content instructionsEdit) \<noteq> instructions (content scenarioA_recipe)"
    by (simp add: instructionsEdit_def scenarioA_recipe_def)
  have 3: "version (content scenarioA_recipe) \<noteq> 0" "version (content scenarioA_recipe) = 1"
    "history scenarioA_recipe = []"
    by (simp_all add: scenarioA_recipe_def)
  have 4: "ingredients (content instructionsEdit) = ingredients (content scenarioA_recipe)"
    by (simp add: instructionsEdit_def)
  note inst = updateRecipe_content_edit[OF 1 3(1), where reordered = False, THEN conjunct1,
      THEN mp, OF 2]
  from inst obtain entry where e:
    "history (fst (handleUpdateRecipe_325 False [scenarioA_recipe] instructionsEdit)) =
       history scenarioA_recipe @ [entry]" "content entry = content scenarioA_recipe"
    by blast
  from inst e 3 4 show ?thesis by simp
qed


section \<open>Plan generation\<close>

text \<open>
  Claim C9. Let the catalog hold exactly the recipes A and B, both rated 5, in either order;
  let the working plan hold no item of A and an item of B dated one day before the candidate
  date, which is not in the past and has no item yet. Then, for every jitter in \<open>[0, 1)\<close>
  times 10, the round for that date appends one item: for that date, with A's id as
  \<open>recipe_id\<close>, pinned to A's version and with A's default servings; and so does the
  generator started at that date, before it goes on to the later dates. A scores \<open>110\<close> plus
  its jitter with \<open>daysSince = 100\<close>, and B, with \<open>daysSince = 1\<close>, scores below
  \<open>110 - 10000\<close>. Ratings of plan items are at most 5, the top of the rating scale.
\<close>

theorem generator_prefers_never_eaten:
  assumes "recipes = [A, B] \<or> recipes = [B, A]"
    and "rating (content A) = Some 5" and "rating (content B) = Some 5"
    and "\<forall>p\<in>set newPlan. recipe_id p \<noteq> id_r (content A)"
    and "\<exists>p\<in>set newPlan. recipe_id p = id_r (content B) \<and> date p = dateStr - 1"
    and "\<forall>p\<in>set newPlan. \<forall>x. rating_m p = Some x \<longrightarrow> x \<le> 5"
    and "\<forall>j. 0 \<le> rnd j \<and> rnd j < 1"
    and "todayStr \<le> dateStr" and "\<forall>p\<in>set newPlan. date p \<noteq> dateStr"
  shows "generateDay rnd newId recipes todayStr newPlan dateStr =
           newPlan @
           [\<lparr>id_m = newId, date = dateStr, meal_type = DINNER,
              recipe_id = id_r (content A),
              recipe_version = Some (version (content A)),
              is_leftover = False, is_cooked = False, rating_m = None, rating_comment = None,
              servings = Some (servings_default (content A))\<rparr>] \<and>
         (random 0 = rnd \<and> dateOf 0 = dateStr \<longrightarrow>
            (\<exists>rest. handleGeneratePlan random now dateOf recipes todayStr newPlan =
                      newPlan @
                      \<lparr>id_m = now 0, date = dateStr, meal_type = DINNER,
              recipe_id = id_r (content A),
              recipe_version = Some (version (content A)),
              is_leftover = False, is_cooked = False, rating_m = None, rating_comment = None,
              servings = Some (servings_default (content A))\<rparr> # rest)) \<and>
         (\<forall>j. score (scoreRecipe newPlan dateStr (rnd j) A) = 110 + rnd j * 10 \<and>
              daysSince (scoreRecipe newPlan dateStr (rnd j) A) = 100 \<and>
              daysSince (scoreRecipe newPlan dateStr (rnd j) B) = 1 \<and>
              score (scoreRecipe newPlan dateStr (rnd j) B) < 110 - 10000)"
proof (intro conjI)
  have ne: "id_r (content B) \<noteq> id_r (content A)" using assms(4,5) by auto
  have sA: "scoreRecipe newPlan dateStr (rnd j) A =
              \<lparr>id_sc = id_r (content A), score = 110 + rnd j * 10, daysSince = 100\<rparr>" for j
    using assms(4) assms(2) by (rule score_never_eaten)
  have sB: "id_sc (scoreRecipe newPlan dateStr (rnd j) B) = id_r (content B) \<and>
         daysSince (scoreRecipe newPlan dateStr (rnd j) B) = 1 \<and>
         score (scoreRecipe newPlan dateStr (rnd j) B) < 52 - 10000 + 10" for j
    using assms(5) assms(3) assms(6) by (rule score_eaten_yesterday) (use assms(7) in simp)
  have lt: "score (scoreRecipe newPlan dateStr (rnd i) B) <
            score (scoreRecipe newPlan dateStr (rnd j) A)" for i j
  proof -
    have "0 \<le> rnd j" using assms(7) by simp
    with sB[of i] show ?thesis unfolding sA by simp
  qed
  have slot: "\<not> list_ex (\<lambda>p. date p = dateStr) newPlan"
    using assms(9) by (simp add: list_ex_iff)
  from assms(1) have day: "generateDay rnd newId recipes todayStr newPlan dateStr =
           newPlan @ [newItem newId dateStr A]" for newId
  proof
    assume r: "recipes = [A, B]"
    have "bestMatch [scoreRecipe newPlan dateStr (rnd 0) A, scoreRecipe newPlan dateStr (rnd 1) B]
            = Some (scoreRecipe newPlan dateStr (rnd 0) A)"
      using bestMatch_pair[OF lt[of 1 0]] by simp
    then show ?thesis
      using assms(8) slot unfolding generateDay_def r
      by (simp add: enumerate_eq_zip sA upt_rec[of 0] upt_rec[of 1])
  next
    assume r: "recipes = [B, A]"
    have "bestMatch [scoreRecipe newPlan dateStr (rnd 0) B, scoreRecipe newPlan dateStr (rnd 1) A]
            = Some (scoreRecipe newPlan dateStr (rnd 1) A)"
      using bestMatch_pair[OF lt[of 0 1]] by simp
    then show ?thesis
      using assms(8) slot ne unfolding generateDay_def r
      by (simp add: enumerate_eq_zip sA upt_rec[of 0] upt_rec[of 1])
  qed
  show "generateDay rnd newId recipes todayStr newPlan dateStr =
           newPlan @
           [\<lparr>id_m = newId, date = dateStr, meal_type = DINNER,
              recipe_id = id_r (content A),
              recipe_version = Some (version (content A)),
              is_leftover = False, is_cooked = False, rating_m = None, rating_comment = None,
              servings = Some (servings_default (content A))\<rparr>]"
    unfolding day newItem_def ..
  show "random 0 = rnd \<and> dateOf 0 = dateStr \<longrightarrow>
            (\<exists>rest. handleGeneratePlan random now dateOf recipes todayStr newPlan =
                      newPlan @
                      \<lparr>id_m = now 0, date = dateStr, meal_type = DINNER,
              recipe_id = id_r (content A),
              recipe_version = Some (version (content A)),
              is_leftover = False, is_cooked = False, rating_m = None, rating_comment = None,
              servings = Some (servings_default (content A))\<rparr> # rest)"
  proof
    assume r: "random 0 = rnd \<and> dateOf 0 = dateStr"
    obtain rest where "handleGeneratePlan random now dateOf recipes todayStr newPlan =
        generateDay (random 0) (now 0) recipes todayStr newPlan (dateOf 0) @ rest"
      using handleGeneratePlan_first by blast
    then have "handleGeneratePlan random now dateOf recipes todayStr newPlan =
        newPlan @ newItem (now 0) dateStr A # rest"
      using r day by simp
    then show "\<exists>rest. handleGeneratePlan random now dateOf recipes todayStr newPlan =
                      newPlan @
                      \<lparr>id_m = now 0, date = dateStr, meal_type = DINNER,
              recipe_id = id_r (content A),
              recipe_version = Some (version (content A)),
              is_leftover = False, is_cooked = False, rating_m = None, rating_comment = None,
              servings = Some (servings_default (content A))\<rparr> # rest"
      unfolding newItem_def ..
  qed
next
  show "\<forall>j. score (scoreRecipe newPlan dateStr (rnd j) A) = 110 + rnd j * 10 \<and>
              daysSince (scoreRecipe newPlan dateStr (rnd j) A) = 100 \<and>
              daysSince (scoreRecipe newPlan dateStr (rnd j) B) = 1 \<and>
              score (scoreRecipe newPlan dateStr (rnd j) B) < 110 - 10000"
  proof
  fix j
  have sA: "scoreRecipe newPlan dateStr (rnd j) A =
              \<lparr>id_sc = id_r (content A), score = 110 + rnd j * 10, daysSince = 100\<rparr>"
    using assms(4) assms(2) by (rule score_never_eaten)
  have sB: "id_sc (scoreRecipe newPlan dateStr (rnd j) B) = id_r (content B) \<and>
         daysSince (scoreRecipe newPlan dateStr (rnd j) B) = 1 \<and>
         score (scoreRecipe newPlan dateStr (rnd j) B) < 52 - 10000 + 10"
    using assms(5) assms(3) assms(6) by (rule score_eaten_yesterday) (use assms(7) in simp)
  show "score (scoreRecipe newPlan dateStr (rnd j) A) = 110 + rnd j * 10 \<and>
              daysSince (scoreRecipe newPlan dateStr (rnd j) A) = 100 \<and>
              daysSince (scoreRecipe newPlan dateStr (rnd j) B) = 1 \<and>
              score (scoreRecipe newPlan dateStr (rnd j) B) < 110 - 10000"
    using sB unfolding sA by simp
  qed
qed

theorem generator_prefers_never_eaten_witness:
  "generateDay (\<lambda>j. if j = 0 then 0 else 9 / 10) 77 [recipeA, recipeB] 20000 [yesterdayB] 20000 =
     [yesterdayB,
      \<lparr>id_m = 77, date = 20000, meal_type = DINNER, recipe_id = 1, recipe_version = Some 1,
        is_leftover = False, is_cooked = False, rating_m = None, rating_comment = None,
        servings = Some 4\<rparr>] \<and>
   generateDay (\<lambda>j. if j = 0 then 9 / 10 else 0) 77 [recipeB, recipeA] 20000 [yesterdayB] 20000 =
     [yesterdayB,
      \<lparr>id_m = 77, date = 20000, meal_type = DINNER, recipe_id = 1, recipe_version = Some 1,
        is_leftover = False, is_cooked = False, rating_m = None, rating_comment = None,
        servings = Some 4\<rparr>] \<and>
   score (scoreRecipe [yesterdayB] 20000 0 recipeA) = 110 \<and>
   score (scoreRecipe [yesterdayB] 20000 (9 / 10) recipeB) = 61 - 10000"
proof -
  have 2: "rating (content recipeA) = Some 5" "rating (content recipeB) = Some 5"
    by (simp_all add: recipeA_def recipeB_def)
  have 4: "\<forall>p\<in>set [yesterdayB]. recipe_id p \<noteq> id_r (content recipeA)"
    by (simp add: yesterdayB_def recipeA_def)
  have 5: "\<exists>p\<in>set [yesterdayB]. recipe_id p = id_r (content recipeB) \<and> date p = 20000 - 1"
    by (simp add: yesterdayB_def recipeB_def)
  have 6: "\<forall>p\<in>set [yesterdayB]. \<forall>x. rating_m p = Some x \<longrightarrow> x \<le> 5"
    by (simp add: yesterdayB_def)
  have 7: "\<forall>j. 0 \<le> (\<lambda>j. if j = 0 then 0 else 9 / 10 :: rat) j \<and>
               (\<lambda>j. if j = 0 then 0 else 9 / 10 :: rat) j < 1"
    "\<forall>j. 0 \<le> (\<lambda>j. if j = 0 then 9 / 10 else 0 :: rat) j \<and>
               (\<lambda>j. if j = 0 then 9 / 10 else 0 :: rat) j < 1"
    by simp_all
  have 8: "(20000::int) \<le> 20000" by simp
  have 9: "\<forall>p\<in>set [yesterdayB]. date p \<noteq> 20000" by (simp add: yesterdayB_def)
  have r1: "[recipeA, recipeB] = [recipeA, recipeB] \<or> [recipeA, recipeB] = [recipeB, recipeA]"
    by simp
  have r2: "[recipeB, recipeA] = [recipeA, recipeB] \<or> [recipeB, recipeA] = [recipeB, recipeA]"
    by simp
  have A: "id_r (content recipeA) = 1" "version (content recipeA) = 1"
    "servings_default (content recipeA) = 4"
    by (simp_all add: recipeA_def scenarioA_recipe_def)
  from generator_prefers_never_eaten[OF r1 2 4 5 6 7(1) 8 9, of 77, THEN conjunct1] A
  have a: "generateDay (\<lambda>j. if j = 0 then 0 else 9 / 10) 77 [recipeA, recipeB] 20000 [yesterdayB] 20000 =
     [yesterdayB,
      \<lparr>id_m = 77, date = 20000, meal_type = DINNER, recipe_id = 1, recipe_version = Some 1,
        is_leftover = False, is_cooked = False, rating_m = None, rating_comment = None,
        servings = Some 4\<rparr>]" by simp
  from generator_prefers_never_eaten[OF r2 2 4 5 6 7(2) 8 9, of 77, THEN conjunct1] A
  have b: "generateDay (\<lambda>j. if j = 0 then 9 / 10 else 0) 77 [recipeB, recipeA] 20000 [yesterdayB] 20000 =
     [yesterdayB,
      \<lparr>id_m = 77, date = 20000, meal_type = DINNER, recipe_id = 1, recipe_version = Some 1,
        is_leftover = False, is_cooked = False, rating_m = None, rating_comment = None,
        servings = Some 4\<rparr>]" by simp
  have c: "score (scoreRecipe [yesterdayB] 20000 0 recipeA) = 110"
    by (simp add: scoreRecipe_def yesterdayB_def recipeA_def js_or_def)
  have d: "score (scoreRecipe [yesterdayB] 20000 (9 / 10) recipeB) = 61 - 10000"
    by (simp add: scoreRecipe_def yesterdayB_def recipeB_def js_or_def)
  from a b c d show ?thesis by blast
qed

end
